theory Spec2Isabelle
  imports Main "HOL-Library.Char_ord" "HOL-Library.List_Lexorder" "HOL-Library.AList"
begin

section \<open>JSON texts\<close>

text \<open>
  The library works on byte slices that hold JSON texts. A byte slice is modelled by the
  JSON value it denotes, keeping the order of the members of every object and every
  duplicate key; a number keeps its literal. Slices that are no JSON text (among them the
  nil slice) are the one value \<open>NotJSON\<close>: \<open>json.Unmarshal\<close> fails on all of them.
\<close>

datatype json =
    JNull
  | JBool bool
  | JNum string
  | JStr string
  | JArr "json list"
  | JObj "(string \<times> json) list"

datatype bytes = NotJSON | Text json

text \<open>A \<open>rawJSON\<close> (or \<open>RawJSON\<close>) field is a byte slice; \<open>None\<close> is the empty slice,
  the zero value that \<open>omitempty\<close> leaves out.\<close>

type_synonym rawJSON = "json option"

datatype error =
    SyntaxError
  | UnmarshalTypeError string
  | MarshalError
  | Panic string
  | InvalidContentHash
  | UnsupportedRoomVersionError string
  | NilSlices
  | EventTooLong nat
  | TypeTooLong nat
  | StateKeyTooLong nat
  | InvalidID string
  | WrongSigil string
  | IDTooLong string nat
  | EventIDDomainMismatch string string
  | SenderDomainMismatch string string
  | UnknownRoomVersion
  | External string

subsection \<open>Decoding into a struct: \<open>encoding/json\<close>\<close>

text \<open>
  \<open>json.Unmarshal\<close> into a struct walks the members of the object in their order. For each
  key it takes the field whose tag is the key, or else the first field whose tag equals the
  key under simple case folding (ASCII letters, and the two non-ASCII letters that fold to
  an ASCII one: the Kelvin sign, bytes E2 84 AA, and the long s, bytes C5 BF); a key that
  matches no field is skipped. A later member for the same field overwrites an earlier one.
\<close>

definition lowerASCII :: "char \<Rightarrow> char" where
  "lowerASCII c =
     (if 65 \<le> (of_char c :: nat) \<and> (of_char c :: nat) \<le> 90
      then (case c of Char b0 b1 b2 b3 b4 b5 b6 b7 \<Rightarrow> Char b0 b1 b2 b3 b4 True b6 b7)
      else c)"

fun foldKey :: "string \<Rightarrow> string" where
  "foldKey [] = []"
| "foldKey (c # cs) =
     (if c = CHR 0xE2 \<and> take 2 cs = [CHR 0x84, CHR 0xAA]
        then CHR ''k'' # foldKey (drop 2 cs)
      else if c = CHR 0xC5 \<and> take 1 cs = [CHR 0xBF]
        then CHR ''s'' # foldKey (drop 1 cs)
      else lowerASCII c # foldKey cs)"

definition matchField :: "string list \<Rightarrow> string \<Rightarrow> string option" where
  "matchField tags key =
     (if key \<in> set tags then Some key
      else find (\<lambda>t. foldKey t = foldKey key) tags)"

text \<open>A struct all of whose fields are \<open>rawJSON\<close> is the table from its tags to the
  fields' values. Every JSON value is accepted for such a field, also \<open>null\<close>, and stored
  as it is.\<close>

type_synonym rawStruct = "string \<Rightarrow> rawJSON"

definition zeroStruct :: rawStruct where
  "zeroStruct = (\<lambda>t. None)"

definition storeRaw :: "string list \<Rightarrow> rawStruct \<Rightarrow> string \<times> json \<Rightarrow> rawStruct" where
  "storeRaw tags s m =
     (case matchField tags (fst m) of
        None \<Rightarrow> s
      | Some t \<Rightarrow> s(t := Some (snd m)))"

definition unmarshalRawStruct ::
  "string list \<Rightarrow> rawStruct \<Rightarrow> (string \<times> json) list \<Rightarrow> rawStruct" where
  "unmarshalRawStruct tags s ms = foldl (storeRaw tags) s ms"

text \<open>\<open>json.Marshal\<close> of such a struct writes the fields in the order of their declaration
  and, all of them being \<open>omitempty\<close>, leaves the empty ones out.\<close>

definition marshalRawStruct :: "string list \<Rightarrow> rawStruct \<Rightarrow> (string \<times> json) list" where
  "marshalRawStruct tags s = List.map_filter (\<lambda>t. map_option (Pair t) (s t)) tags"

section \<open>Redaction\<close>

text \<open>The local struct types of \<open>RedactEvent\<close>, by their tags and in their order.\<close>

definition createContent :: "string list" where
  "createContent = [''creator'']"

definition joinRulesContent :: "string list" where
  "joinRulesContent = [''join_rule'']"

definition powerLevelContent :: "string list" where
  "powerLevelContent =
     [''users'', ''users_default'', ''events'', ''events_default'', ''state_default'',
      ''ban'', ''kick'', ''redact'']"

definition memberContent :: "string list" where
  "memberContent = [''membership'']"

definition aliasesContent :: "string list" where
  "aliasesContent = [''aliases'']"

definition historyVisibilityContent :: "string list" where
  "historyVisibilityContent = [''history_visibility'']"

definition allContent :: "string list" where
  "allContent = createContent @ joinRulesContent @ powerLevelContent @ memberContent
     @ aliasesContent @ historyVisibilityContent"

text \<open>\<open>eventFields\<close> of \<open>RedactEvent\<close>: thirteen \<open>rawJSON\<close> fields, \<open>Content\<close> (an
  \<open>allContent\<close>) and \<open>Type\<close> (a string). The \<open>rawJSON\<close> fields declared before \<open>Content\<close>
  and after \<open>Type\<close>:\<close>

definition fieldsBeforeContent :: "string list" where
  "fieldsBeforeContent = [''event_id'', ''sender'', ''room_id'', ''hashes'', ''signatures'']"

definition fieldsAfterType :: "string list" where
  "fieldsAfterType =
     [''state_key'', ''depth'', ''prev_events'', ''prev_state'', ''auth_events'', ''origin'',
      ''origin_server_ts'', ''membership'']"

definition rawFieldTags :: "string list" where
  "rawFieldTags = fieldsBeforeContent @ fieldsAfterType"

definition eventFieldTags :: "string list" where
  "eventFieldTags = fieldsBeforeContent @ [''content'', ''type''] @ fieldsAfterType"

record redactFields =
  rfRaw :: rawStruct
  rfContent :: rawStruct
  rfType :: string

definition zeroRedactFields :: redactFields where
  "zeroRedactFields = \<lparr>rfRaw = zeroStruct, rfContent = zeroStruct, rfType = []\<rparr>"

text \<open>The decoder keeps the first type error and goes on; \<open>null\<close> leaves a string or a
  struct as it is; a second \<open>content\<close> object is decoded into the same struct.\<close>

definition saveError :: "error option \<Rightarrow> error \<Rightarrow> error option" where
  "saveError old e = (case old of None \<Rightarrow> Some e | Some e0 \<Rightarrow> Some e0)"

definition decodeMember ::
  "redactFields \<times> error option \<Rightarrow> string \<times> json \<Rightarrow> redactFields \<times> error option" where
  "decodeMember st m =
     (case matchField eventFieldTags (fst m) of
        None \<Rightarrow> st
      | Some t \<Rightarrow>
          if t = ''content'' then
            (case snd m of
               JObj cs \<Rightarrow>
                 ((fst st)\<lparr>rfContent := unmarshalRawStruct allContent (rfContent (fst st)) cs\<rparr>,
                  snd st)
             | JNull \<Rightarrow> st
             | _ \<Rightarrow> (fst st, saveError (snd st) (UnmarshalTypeError ''content'')))
          else if t = ''type'' then
            (case snd m of
               JStr s \<Rightarrow> ((fst st)\<lparr>rfType := s\<rparr>, snd st)
             | JNull \<Rightarrow> st
             | _ \<Rightarrow> (fst st, saveError (snd st) (UnmarshalTypeError ''type'')))
          else ((fst st)\<lparr>rfRaw := (rfRaw (fst st))(t := Some (snd m))\<rparr>, snd st))"

definition unmarshalEventFields :: "bytes \<Rightarrow> error + redactFields" where
  "unmarshalEventFields b =
     (case b of
        NotJSON \<Rightarrow> Inl SyntaxError
      | Text JNull \<Rightarrow> Inr zeroRedactFields
      | Text (JObj ms) \<Rightarrow>
          (case foldl decodeMember (zeroRedactFields, None) ms of
             (event, None) \<Rightarrow> Inr event
           | (event, Some e) \<Rightarrow> Inl e)
      | Text _ \<Rightarrow> Inl (UnmarshalTypeError ''eventFields''))"

definition marshalEventFields :: "redactFields \<Rightarrow> json" where
  "marshalEventFields event =
     JObj (marshalRawStruct fieldsBeforeContent (rfRaw event)
           @ [(''content'', JObj (marshalRawStruct allContent (rfContent event))),
              (''type'', JStr (rfType event))]
           @ marshalRawStruct fieldsAfterType (rfRaw event))"

text \<open>The switch on the event type: which embedded content struct is copied into
  \<open>newContent\<close>.\<close>

definition keptContent :: "string \<Rightarrow> string list" where
  "keptContent ty =
     (if ty = ''m.room.create'' then createContent
      else if ty = ''m.room.member'' then memberContent
      else if ty = ''m.room.join_rules'' then joinRulesContent
      else if ty = ''m.room.power_levels'' then powerLevelContent
      else if ty = ''m.room.history_visibility'' then historyVisibilityContent
      else if ty = ''m.room.aliases'' then aliasesContent
      else [])"

definition newContent :: "redactFields \<Rightarrow> rawStruct" where
  "newContent event =
     (\<lambda>t. if t \<in> set (keptContent (rfType event)) then rfContent event t else None)"

definition RedactEvent :: "bytes \<Rightarrow> error + bytes" where
  "RedactEvent eventJSON =
     (case unmarshalEventFields eventJSON of
        Inl err \<Rightarrow> Inl err
      | Inr event \<Rightarrow> Inr (Text (marshalEventFields (event\<lparr>rfContent := newContent event\<rparr>))))"

text \<open>What an event declares, read off its members without the decoder: the members whose
  key matches a field, under that field's tag; the members of all its content objects; its
  type.\<close>

definition retag :: "string list \<Rightarrow> (string \<times> json) list \<Rightarrow> (string \<times> json) list" where
  "retag tags ms = List.map_filter (\<lambda>m. map_option (\<lambda>t. (t, snd m)) (matchField tags (fst m))) ms"

definition declared :: "string list \<Rightarrow> (string \<times> json) list \<Rightarrow> string \<Rightarrow> rawJSON" where
  "declared tags ms = map_of (rev (retag tags ms))"

fun contentMembers :: "(string \<times> json) list \<Rightarrow> (string \<times> json) list" where
  "contentMembers [] = []"
| "contentMembers ((t, JObj cs) # ms) =
     (if t = ''content'' then cs @ contentMembers ms else contentMembers ms)"
| "contentMembers (m # ms) = contentMembers ms"

fun lastType :: "(string \<times> json) list \<Rightarrow> string \<Rightarrow> string" where
  "lastType [] ty = ty"
| "lastType ((t, JStr s) # ms) ty = lastType ms (if t = ''type'' then s else ty)"
| "lastType (m # ms) ty = lastType ms ty"

definition declaredContent :: "(string \<times> json) list \<Rightarrow> string \<Rightarrow> rawJSON" where
  "declaredContent ms = declared allContent (contentMembers (retag eventFieldTags ms))"

definition declaredType :: "(string \<times> json) list \<Rightarrow> string" where
  "declaredType ms = lastType (retag eventFieldTags ms) []"

definition members :: "bytes \<Rightarrow> (string \<times> json) list" where
  "members b = (case b of Text (JObj ms) \<Rightarrow> ms | _ \<Rightarrow> [])"

text \<open>A member, under its field's tag, that the decoder of \<open>RedactEvent\<close> takes without a
  type error.\<close>

definition wellTyped :: "string \<times> json \<Rightarrow> bool" where
  "wellTyped m =
     (if fst m = ''content'' then (case snd m of JObj cs \<Rightarrow> True | JNull \<Rightarrow> True | _ \<Rightarrow> False)
      else if fst m = ''type'' then (case snd m of JStr s \<Rightarrow> True | JNull \<Rightarrow> True | _ \<Rightarrow> False)
      else True)"

section \<open>Collaborators\<close>

text \<open>Modelled from the spec: \<open>CanonicalJSON\<close>, the canonical JSON codec the library calls
  into, is not part of these sources. The spec gives its contract: the encoding is
  deterministic, sorts the members of every object by key, carries no insignificant white
  space and keeps integers; it fails on bytes that are no JSON.
  \<open>CanonicalJSONAssumeValid\<close> is the same encoding without the check.\<close>

primrec canonical :: "json \<Rightarrow> json" where
  "canonical JNull = JNull"
| "canonical (JBool b) = JBool b"
| "canonical (JNum n) = JNum n"
| "canonical (JStr s) = JStr s"
| "canonical (JArr xs) = JArr (map canonical xs)"
| "canonical (JObj ms) = JObj (sort_key fst (map (map_prod id canonical) ms))"

definition CanonicalJSON :: "bytes \<Rightarrow> error + bytes" where
  "CanonicalJSON b = (case b of NotJSON \<Rightarrow> Inl SyntaxError | Text j \<Rightarrow> Inr (Text (canonical j)))"

definition CanonicalJSONAssumeValid :: "bytes \<Rightarrow> bytes" where
  "CanonicalJSONAssumeValid b = (case b of NotJSON \<Rightarrow> NotJSON | Text j \<Rightarrow> Text (canonical j))"

text \<open>An \<open>EventReference\<close>: the event ID and the SHA-256 of the redacted event.\<close>

record EventReference =
  refEventID :: string
  EventSHA256 :: string

text \<open>The package's \<open>eventFields\<close> and the two field formats that embed it. A slice that
  may be nil is an option; so is the pointer \<open>StateKey\<close>.\<close>

record eventFields =
  EventID :: string
  RoomID :: string
  Sender :: string
  Type :: string
  StateKey :: "string option"
  Content :: rawJSON
  Redacts :: string
  Depth :: int
  Unsigned :: rawJSON
  OriginServerTS :: int
  Origin :: string

record eventFormatV1Fields =
  eventFieldsV1 :: eventFields
  PrevEventsV1 :: "EventReference list option"
  AuthEventsV1 :: "EventReference list option"

record eventFormatV2Fields =
  eventFieldsV2 :: eventFields
  PrevEventsV2 :: "string list option"
  AuthEventsV2 :: "string list option"

text \<open>
  What the library takes from outside these sources, as parameters of the model: SHA-256,
  \<open>SignJSON\<close>, the JSON coding of \<open>Base64String\<close>, the \<open>sjson\<close> and \<open>gjson\<close> calls,
  \<open>json.Unmarshal\<close> into the two field formats, \<open>domainFromID\<close>, and the length of a byte
  slice. A failing collaborator returns its message.
\<close>

record collab =
  Sum256 :: "bytes \<Rightarrow> string"
  SignJSON :: "string \<Rightarrow> string \<Rightarrow> string \<Rightarrow> bytes \<Rightarrow> string + bytes"
  marshalBase64 :: "string \<Rightarrow> json"
  unmarshalBase64 :: "json \<Rightarrow> string + string"
  sjsonDeleteBytes :: "bytes \<Rightarrow> string \<Rightarrow> string + bytes"
  sjsonSetBytes :: "bytes \<Rightarrow> string \<Rightarrow> json \<Rightarrow> string + bytes"
  gjsonGetRaw :: "bytes \<Rightarrow> string \<Rightarrow> rawJSON"
  unmarshalV1 :: "bytes \<Rightarrow> string + eventFormatV1Fields"
  unmarshalV2 :: "bytes \<Rightarrow> string + eventFormatV2Fields"
  domainFromID :: "string \<Rightarrow> string + string"
  len :: "bytes \<Rightarrow> nat"

definition external :: "string + 'a \<Rightarrow> error + 'a" where
  "external r = (case r of Inl msg \<Rightarrow> Inl (External msg) | Inr x \<Rightarrow> Inr x)"

section \<open>Maps of raw JSON\<close>

text \<open>
  A \<open>map[string]rawJSON\<close> is an association list with distinct keys, \<open>None\<close> the nil map.
  \<open>json.Unmarshal\<close> of \<open>null\<close> leaves the map nil; \<open>delete\<close> on and reads from a nil map
  are harmless, an assignment to it panics, and \<open>json.Marshal\<close> writes it as \<open>null\<close>.
  A map that is not nil is written with its keys sorted.
\<close>

type_synonym rawMap = "(string \<times> json) list option"

definition unmarshalMap :: "bytes \<Rightarrow> error + rawMap" where
  "unmarshalMap b =
     (case b of
        NotJSON \<Rightarrow> Inl SyntaxError
      | Text JNull \<Rightarrow> Inr None
      | Text (JObj ms) \<Rightarrow> Inr (Some (foldl (\<lambda>m kv. AList.update (fst kv) (snd kv) m) [] ms))
      | Text _ \<Rightarrow> Inl (UnmarshalTypeError ''map[string]rawJSON''))"

definition lookupMap :: "rawMap \<Rightarrow> string \<Rightarrow> rawJSON" where
  "lookupMap m k = (case m of None \<Rightarrow> None | Some al \<Rightarrow> map_of al k)"

definition deleteMap :: "string \<Rightarrow> rawMap \<Rightarrow> rawMap" where
  "deleteMap k m = map_option (AList.delete k) m"

definition assignMap :: "string \<Rightarrow> json \<Rightarrow> rawMap \<Rightarrow> error + rawMap" where
  "assignMap k v m =
     (case m of
        None \<Rightarrow> Inl (Panic ''assignment to entry in nil map'')
      | Some al \<Rightarrow> Inr (Some (AList.update k v al)))"

definition marshalMap :: "rawMap \<Rightarrow> bytes" where
  "marshalMap m = (case m of None \<Rightarrow> Text JNull | Some al \<Rightarrow> Text (JObj (sort_key fst al)))"

section \<open>Content hash, reference hash, signing\<close>

text \<open>The struct \<open>{Sha256 Base64String `json:"sha256"`}\<close>: decoding its members, and the
  whole of it from the raw value under \<open>hashes\<close>.\<close>

fun decodeSha256 :: "collab \<Rightarrow> (string \<times> json) list \<Rightarrow> string \<Rightarrow> error + string" where
  "decodeSha256 X [] sha = Inr sha"
| "decodeSha256 X (m # ms) sha =
     (case matchField [''sha256''] (fst m) of
        None \<Rightarrow> decodeSha256 X ms sha
      | Some t \<Rightarrow>
          (case unmarshalBase64 X (snd m) of
             Inl msg \<Rightarrow> Inl (External msg)
           | Inr s \<Rightarrow> decodeSha256 X ms s))"

definition unmarshalHashes :: "collab \<Rightarrow> rawJSON \<Rightarrow> error + string" where
  "unmarshalHashes X hashesJSON =
     (case hashesJSON of
        None \<Rightarrow> Inl SyntaxError
      | Some JNull \<Rightarrow> Inr []
      | Some (JObj ms) \<Rightarrow> decodeSha256 X ms []
      | Some _ \<Rightarrow> Inl (UnmarshalTypeError ''hashes''))"

definition addContentHashesToEvent :: "collab \<Rightarrow> bytes \<Rightarrow> error + bytes" where
  "addContentHashesToEvent X eventJSON =
     (case unmarshalMap eventJSON of
        Inl err \<Rightarrow> Inl err
      | Inr event \<Rightarrow>
          let unsignedJSON = lookupMap event ''unsigned'';
              event1 = deleteMap ''hashes'' (deleteMap ''unsigned'' event)
          in (case CanonicalJSON (marshalMap event1) of
                Inl err \<Rightarrow> Inl err
              | Inr hashableEventJSON \<Rightarrow>
                  let sha256Hash = Sum256 X hashableEventJSON;
                      hashesJSON = JObj [(''sha256'', marshalBase64 X sha256Hash)];
                      event2 = (case unsignedJSON of
                                  None \<Rightarrow> Inr event1
                                | Some u \<Rightarrow> assignMap ''unsigned'' u event1)
                  in (case event2 of
                        Inl err \<Rightarrow> Inl err
                      | Inr event3 \<Rightarrow>
                          (case assignMap ''hashes'' hashesJSON event3 of
                             Inl err \<Rightarrow> Inl err
                           | Inr event4 \<Rightarrow> Inr (marshalMap event4)))))"

definition checkEventContentHash :: "collab \<Rightarrow> bytes \<Rightarrow> error option" where
  "checkEventContentHash X eventJSON =
     (case unmarshalMap eventJSON of
        Inl err \<Rightarrow> Some err
      | Inr event \<Rightarrow>
          let hashesJSON = lookupMap event ''hashes'';
              event1 = deleteMap ''hashes'' (deleteMap ''unsigned'' (deleteMap ''signatures'' event))
          in (case unmarshalHashes X hashesJSON of
                Inl err \<Rightarrow> Some err
              | Inr sha256 \<Rightarrow>
                  (case CanonicalJSON (marshalMap event1) of
                     Inl err \<Rightarrow> Some err
                   | Inr hashableEventJSON \<Rightarrow>
                       if Sum256 X hashableEventJSON \<noteq> sha256 then Some InvalidContentHash
                       else None)))"

text \<open>\<open>json.Unmarshal\<close> of a raw value into a string variable that holds the empty string.\<close>

definition unmarshalString :: "rawJSON \<Rightarrow> error + string" where
  "unmarshalString raw =
     (case raw of
        None \<Rightarrow> Inl SyntaxError
      | Some (JStr s) \<Rightarrow> Inr s
      | Some JNull \<Rightarrow> Inr []
      | Some _ \<Rightarrow> Inl (UnmarshalTypeError ''string''))"

text \<open>\<open>referenceOfEvent\<close> as \<open>eventcrypto.go\<close> declares it, with the event JSON as its only
  parameter. Its callers also pass the room version, which this declaration has no
  parameter for; the model passes the event JSON.\<close>

definition referenceOfEvent :: "collab \<Rightarrow> bytes \<Rightarrow> error + EventReference" where
  "referenceOfEvent X eventJSON =
     (case RedactEvent eventJSON of
        Inl err \<Rightarrow> Inl err
      | Inr redactedJSON \<Rightarrow>
          (case unmarshalMap redactedJSON of
             Inl err \<Rightarrow> Inl err
           | Inr event \<Rightarrow>
               let event1 = deleteMap ''unsigned'' (deleteMap ''signatures'' event)
               in (case CanonicalJSON (marshalMap event1) of
                     Inl err \<Rightarrow> Inl err
                   | Inr hashableEventJSON \<Rightarrow>
                       let sha256Hash = Sum256 X hashableEventJSON
                       in (case unmarshalString (lookupMap event1 ''event_id'') of
                             Inl err \<Rightarrow> Inl err
                           | Inr eventID \<Rightarrow>
                               Inr \<lparr>refEventID = eventID, EventSHA256 = sha256Hash\<rparr>))))"

text \<open>The struct \<open>{Signatures rawJSON `json:"signatures"`}\<close> read from the signed JSON.\<close>

definition unmarshalSignatures :: "bytes \<Rightarrow> error + rawJSON" where
  "unmarshalSignatures b =
     (case b of
        NotJSON \<Rightarrow> Inl SyntaxError
      | Text JNull \<Rightarrow> Inr None
      | Text (JObj ms) \<Rightarrow> Inr (unmarshalRawStruct [''signatures''] zeroStruct ms ''signatures'')
      | Text _ \<Rightarrow> Inl (UnmarshalTypeError ''signedEvent''))"

definition signEvent :: "collab \<Rightarrow> string \<Rightarrow> string \<Rightarrow> string \<Rightarrow> bytes \<Rightarrow> error + bytes" where
  "signEvent X signingName keyID privateKey eventJSON =
     (case RedactEvent eventJSON of
        Inl err \<Rightarrow> Inl err
      | Inr redactedJSON \<Rightarrow>
          (case external (SignJSON X signingName keyID privateKey redactedJSON) of
             Inl err \<Rightarrow> Inl err
           | Inr signedJSON \<Rightarrow>
               (case unmarshalSignatures signedJSON of
                  Inl err \<Rightarrow> Inl err
                | Inr signatures \<Rightarrow>
                    (case unmarshalMap eventJSON of
                       Inl err \<Rightarrow> Inl err
                     | Inr None \<Rightarrow> Inl (Panic ''assignment to entry in nil map'')
                     | Inr (Some al) \<Rightarrow>
                         (case signatures of
                            None \<Rightarrow> Inl MarshalError
                          | Some sigs \<Rightarrow>
                              Inr (marshalMap (Some (AList.update ''signatures'' sigs al))))))))"

section \<open>Room versions\<close>

datatype StateResAlgorithm = StateResV1 | StateResV2

datatype EventFormat = EventFormatV1 | EventFormatV2

datatype EventIDFormat = EventIDFormatV1 | EventIDFormatV2 | EventIDFormatV3

record RoomVersionDescription =
  Supported :: bool
  Stable :: bool
  stateResAlgorithm :: StateResAlgorithm
  eventFormat :: EventFormat
  eventIDFormat :: EventIDFormat
  enforceSignatureChecks :: bool

definition roomVersionMeta :: "string \<Rightarrow> RoomVersionDescription option" where
  "roomVersionMeta v =
     (if v = ''1'' then Some \<lparr>Supported = True, Stable = True, stateResAlgorithm = StateResV1,
        eventFormat = EventFormatV1, eventIDFormat = EventIDFormatV1,
        enforceSignatureChecks = False\<rparr>
      else if v = ''2'' then Some \<lparr>Supported = True, Stable = True, stateResAlgorithm = StateResV2,
        eventFormat = EventFormatV1, eventIDFormat = EventIDFormatV1,
        enforceSignatureChecks = False\<rparr>
      else if v = ''3'' then Some \<lparr>Supported = True, Stable = True, stateResAlgorithm = StateResV2,
        eventFormat = EventFormatV2, eventIDFormat = EventIDFormatV2,
        enforceSignatureChecks = False\<rparr>
      else if v = ''4'' then Some \<lparr>Supported = True, Stable = True, stateResAlgorithm = StateResV2,
        eventFormat = EventFormatV2, eventIDFormat = EventIDFormatV3,
        enforceSignatureChecks = False\<rparr>
      else if v = ''5'' then Some \<lparr>Supported = True, Stable = True, stateResAlgorithm = StateResV2,
        eventFormat = EventFormatV2, eventIDFormat = EventIDFormatV3,
        enforceSignatureChecks = True\<rparr>
      else None)"

definition RoomVersion_EventFormat :: "string \<Rightarrow> error + EventFormat" where
  "RoomVersion_EventFormat v =
     (case roomVersionMeta v of
        Some r \<Rightarrow> Inr (eventFormat r)
      | None \<Rightarrow> Inl (UnsupportedRoomVersionError v))"

definition RoomVersion_EventIDFormat :: "string \<Rightarrow> error + EventIDFormat" where
  "RoomVersion_EventIDFormat v =
     (case roomVersionMeta v of
        Some r \<Rightarrow> Inr (eventIDFormat r)
      | None \<Rightarrow> Inl (UnsupportedRoomVersionError v))"

section \<open>Events\<close>

text \<open>The \<open>fields\<close> of an \<open>Event\<close> are an \<open>interface{}\<close>: nil, one of the two field formats,
  or, after \<open>json.Unmarshal\<close> into the empty interface, the generic value of a JSON text.\<close>

datatype fields =
    NilFields
  | FormatV1 eventFormatV1Fields
  | FormatV2 eventFormatV2Fields
  | Generic json

record Event =
  redacted :: bool
  eventJSON :: bytes
  evFields :: fields
  roomVersion :: string

definition zeroEvent :: Event where
  "zeroEvent = \<lparr>redacted = False, eventJSON = NotJSON, evFields = NilFields, roomVersion = []\<rparr>"

definition fixNilSlicesV1 :: "eventFormatV1Fields \<Rightarrow> eventFormatV1Fields" where
  "fixNilSlicesV1 f =
     (let f1 = (if AuthEventsV1 f = None then f\<lparr>AuthEventsV1 := Some []\<rparr> else f)
      in if PrevEventsV1 f1 = None then f1\<lparr>PrevEventsV1 := Some []\<rparr> else f1)"

definition fixNilSlicesV2 :: "eventFormatV2Fields \<Rightarrow> eventFormatV2Fields" where
  "fixNilSlicesV2 f =
     (let f1 = (if AuthEventsV2 f = None then f\<lparr>AuthEventsV2 := Some []\<rparr> else f)
      in if PrevEventsV2 f1 = None then f1\<lparr>PrevEventsV2 := Some []\<rparr> else f1)"

definition generateEventID :: "collab \<Rightarrow> Event \<Rightarrow> error + string" where
  "generateEventID X e =
     (if roomVersion e = ''1'' \<or> roomVersion e = ''2'' then
        (case evFields e of
           FormatV1 f \<Rightarrow> Inr (EventID (eventFieldsV1 f))
         | _ \<Rightarrow> Inl (Panic ''interface conversion''))
      else if roomVersion e = ''3'' \<or> roomVersion e = ''4'' \<or> roomVersion e = ''5'' then
        (case referenceOfEvent X (eventJSON e) of
           Inl err \<Rightarrow> Inl err
         | Inr reference \<Rightarrow> Inr (refEventID reference))
      else Inl UnknownRoomVersion)"

text \<open>\<open>populateFieldsFromJSON\<close> writes \<open>e.fields\<close>; the model returns the event written.\<close>

definition populateFieldsFromJSON :: "collab \<Rightarrow> Event \<Rightarrow> bytes \<Rightarrow> error + Event" where
  "populateFieldsFromJSON X e eventJSON0 =
     (case RoomVersion_EventFormat (roomVersion e) of
        Inl err \<Rightarrow> Inl err
      | Inr EventFormatV1 \<Rightarrow>
          (case external (unmarshalV1 X eventJSON0) of
             Inl err \<Rightarrow> Inl err
           | Inr f \<Rightarrow> Inr (e\<lparr>evFields := FormatV1 (fixNilSlicesV1 f)\<rparr>))
      | Inr EventFormatV2 \<Rightarrow>
          (case external (sjsonDeleteBytes X eventJSON0 ''event_id'') of
             Inl err \<Rightarrow> Inl err
           | Inr eventJSON1 \<Rightarrow>
               (case external (unmarshalV2 X eventJSON1) of
                  Inl err \<Rightarrow> Inl err
                | Inr f \<Rightarrow>
                    (case generateEventID X e of
                       Inl err \<Rightarrow> Inl err
                     | Inr eventID \<Rightarrow>
                         Inr (e\<lparr>evFields := FormatV2 (fixNilSlicesV2
                                (f\<lparr>eventFieldsV2 := (eventFieldsV2 f)\<lparr>EventID := eventID\<rparr>\<rparr>))\<rparr>)))))"

definition NewEventFromTrustedJSON :: "collab \<Rightarrow> bytes \<Rightarrow> bool \<Rightarrow> string \<Rightarrow> error + Event" where
  "NewEventFromTrustedJSON X eventJSON0 redacted0 roomVersion0 =
     populateFieldsFromJSON X
       (zeroEvent\<lparr>roomVersion := roomVersion0, redacted := redacted0, eventJSON := eventJSON0\<rparr>)
       eventJSON0"

subsection \<open>The field validator\<close>

definition maxIDLength :: nat where
  "maxIDLength = 255"

definition maxEventLength :: nat where
  "maxEventLength = 65536"

text \<open>The constant \<open>MRoomMember\<close> is declared outside these sources; it is the
  event type that \<open>RedactEvent\<close> spells out.\<close>

definition MRoomMember :: string where
  "MRoomMember = ''m.room.member''"

definition checkID :: "collab \<Rightarrow> string \<Rightarrow> string \<Rightarrow> char \<Rightarrow> error + string" where
  "checkID X ident kind sigil =
     (case external (domainFromID X ident) of
        Inl err \<Rightarrow> Inl err
      | Inr domain \<Rightarrow>
          (case ident of
             [] \<Rightarrow> Inl (Panic ''index out of range'')
           | c # cs \<Rightarrow>
               if c \<noteq> sigil then Inl (WrongSigil kind)
               else if length ident > maxIDLength then Inl (IDTooLong kind (length ident))
               else Inr domain))"

definition checkDomains :: "collab \<Rightarrow> Event \<Rightarrow> eventFields \<Rightarrow> string \<Rightarrow> error option" where
  "checkDomains X e fields0 senderDomain =
     (case RoomVersion_EventIDFormat (roomVersion e) of
        Inl err \<Rightarrow> Some (Panic ''unsupported room version'')
      | Inr eventIDFormat0 \<Rightarrow>
          if eventIDFormat0 = EventIDFormatV1 then
            (case evFields e of
               FormatV1 f1 \<Rightarrow>
                 (case checkID X (EventID (eventFieldsV1 f1)) ''event'' (CHR ''$'') of
                    Inl err \<Rightarrow> Some err
                  | Inr eventDomain \<Rightarrow>
                      if Origin fields0 \<noteq> eventDomain
                        then Some (EventIDDomainMismatch eventDomain (Origin fields0))
                      else if Origin fields0 \<noteq> senderDomain then
                        (if Type fields0 \<noteq> MRoomMember
                           then Some (SenderDomainMismatch senderDomain (Origin fields0))
                         else None)
                      else None)
             | _ \<Rightarrow> Some (Panic ''interface conversion''))
          else None)"

definition checkEventFields :: "collab \<Rightarrow> Event \<Rightarrow> eventFields \<Rightarrow> error option" where
  "checkEventFields X e fields0 =
     (if len X (eventJSON e) > maxEventLength then Some (EventTooLong (len X (eventJSON e)))
      else if length (Type fields0) > maxIDLength then Some (TypeTooLong (length (Type fields0)))
      else if (case StateKey fields0 of None \<Rightarrow> False | Some sk \<Rightarrow> length sk > maxIDLength)
        then Some (StateKeyTooLong (length (the (StateKey fields0))))
      else
        (case checkID X (RoomID fields0) ''room'' (CHR ''!'') of
           Inl err \<Rightarrow> Some err
         | Inr roomDomain \<Rightarrow>
             (case checkID X (Sender fields0) ''user'' (CHR ''@'') of
                Inl err \<Rightarrow> Some err
              | Inr senderDomain \<Rightarrow> checkDomains X e fields0 senderDomain)))"

definition CheckFields :: "collab \<Rightarrow> Event \<Rightarrow> error option" where
  "CheckFields X e =
     (case evFields e of
        FormatV1 f \<Rightarrow>
          if AuthEventsV1 f = None \<or> PrevEventsV1 f = None then Some NilSlices
          else checkEventFields X e (eventFieldsV1 f)
      | FormatV2 f \<Rightarrow>
          if AuthEventsV2 f = None \<or> PrevEventsV2 f = None then Some NilSlices
          else checkEventFields X e (eventFieldsV2 f)
      | _ \<Rightarrow> Some (Panic ''invalid field type''))"

subsection \<open>Ingestion\<close>

fun deleteKeys :: "collab \<Rightarrow> string list \<Rightarrow> bytes \<Rightarrow> error + bytes" where
  "deleteKeys X [] b = Inr b"
| "deleteKeys X (k # ks) b =
     (case external (sjsonDeleteBytes X b k) of
        Inl err \<Rightarrow> Inl err
      | Inr b1 \<Rightarrow> deleteKeys X ks b1)"

definition finishEvent :: "collab \<Rightarrow> Event \<Rightarrow> bytes \<Rightarrow> error + Event" where
  "finishEvent X result eventJSON0 =
     (let result1 = result\<lparr>eventJSON := eventJSON0\<rparr>
      in case CheckFields X result1 of Some err \<Rightarrow> Inl err | None \<Rightarrow> Inr result1)"

text \<open>\<open>NewEventFromUntrustedJSON\<close>, in two parts. The first runs up to the canonical
  encoding and gives the event parsed so far together with the canonical bytes; the second
  checks the content hash of those bytes and goes on from there.\<close>

definition parseUntrustedJSON :: "collab \<Rightarrow> bytes \<Rightarrow> string \<Rightarrow> error + Event \<times> bytes" where
  "parseUntrustedJSON X eventJSON0 roomVersion0 =
     (let result = zeroEvent\<lparr>roomVersion := roomVersion0\<rparr>
      in case RoomVersion_EventFormat roomVersion0 of
           Inl err \<Rightarrow> Inl err
         | Inr eventFormat0 \<Rightarrow>
             (case (if eventFormat0 = EventFormatV2
                    then external (sjsonDeleteBytes X eventJSON0 ''event_id'')
                    else Inr eventJSON0) of
                Inl err \<Rightarrow> Inl err
              | Inr eventJSON1 \<Rightarrow>
                  (case populateFieldsFromJSON X result eventJSON1 of
                     Inl err \<Rightarrow> Inl err
                   | Inr result1 \<Rightarrow>
                       (case deleteKeys X [''outlier'', ''destinations'', ''age_ts''] eventJSON1 of
                          Inl err \<Rightarrow> Inl err
                        | Inr eventJSON2 \<Rightarrow> Inr (result1, CanonicalJSONAssumeValid eventJSON2)))))"

definition NewEventFromUntrustedJSON :: "collab \<Rightarrow> bytes \<Rightarrow> string \<Rightarrow> error + Event" where
  "NewEventFromUntrustedJSON X eventJSON0 roomVersion0 =
     (case parseUntrustedJSON X eventJSON0 roomVersion0 of
        Inl err \<Rightarrow> Inl err
      | Inr (result1, eventJSON3) \<Rightarrow>
          (case checkEventContentHash X eventJSON3 of
             None \<Rightarrow> finishEvent X result1 eventJSON3
           | Some hashError \<Rightarrow>
               let result2 = result1\<lparr>redacted := True\<rparr>
               in (case RedactEvent eventJSON3 of
                     Inl err \<Rightarrow> Inl err
                   | Inr redactedJSON0 \<Rightarrow>
                       let redactedJSON = CanonicalJSONAssumeValid redactedJSON0
                       in (case (if redactedJSON \<noteq> eventJSON3
                                 then NewEventFromTrustedJSON X redactedJSON True roomVersion0
                                 else Inr result2) of
                             Inl err \<Rightarrow> Inl err
                           | Inr result3 \<Rightarrow> finishEvent X result3 redactedJSON))))"

subsection \<open>Derived events\<close>

text \<open>
  The methods below have the pointer receiver \<open>e *Event\<close>. Each is modelled by a function
  that returns the receiver as the call leaves it, paired with what the method returns; a
  panic is the error \<open>Panic\<close>.
\<close>

definition unmarshalInterface :: "bytes \<Rightarrow> error + fields" where
  "unmarshalInterface b =
     (case b of
        NotJSON \<Rightarrow> Inl SyntaxError
      | Text JNull \<Rightarrow> Inr NilFields
      | Text j \<Rightarrow> Inr (Generic j))"

definition Redact :: "Event \<Rightarrow> Event \<times> (error + Event)" where
  "Redact e =
     (if redacted e then (e, Inr e)
      else
        (case RedactEvent (eventJSON e) of
           Inl err \<Rightarrow> (e, Inl (Panic ''invalid event''))
         | Inr eventJSON0 \<Rightarrow>
             (case CanonicalJSON eventJSON0 of
                Inl err \<Rightarrow> (e, Inl (Panic ''invalid event''))
              | Inr eventJSON1 \<Rightarrow>
                  (case unmarshalInterface eventJSON1 of
                     Inl err \<Rightarrow> (e, Inl (Panic ''invalid event''))
                   | Inr fields0 \<Rightarrow>
                       (e, Inr (zeroEvent\<lparr>redacted := True, eventJSON := eventJSON1,
                                  evFields := fields0\<rparr>))))))"

definition Sign :: "collab \<Rightarrow> Event \<Rightarrow> string \<Rightarrow> string \<Rightarrow> string \<Rightarrow> Event \<times> (error + Event)" where
  "Sign X e signingName keyID privateKey =
     (case signEvent X signingName keyID privateKey (eventJSON e) of
        Inl err \<Rightarrow> (e, Inl (Panic ''invalid event''))
      | Inr eventJSON0 \<Rightarrow>
          (case CanonicalJSON eventJSON0 of
             Inl err \<Rightarrow> (e, Inl (Panic ''invalid event''))
           | Inr eventJSON1 \<Rightarrow>
               (e, Inr (zeroEvent\<lparr>redacted := redacted e, eventJSON := eventJSON1,
                          evFields := evFields e\<rparr>))))"

definition updateUnsignedFields :: "Event \<Rightarrow> rawJSON \<Rightarrow> error + Event" where
  "updateUnsignedFields e unsigned =
     (case evFields e of
        FormatV1 f \<Rightarrow>
          Inr (e\<lparr>evFields := FormatV1 (fixNilSlicesV1
                 (f\<lparr>eventFieldsV1 := (eventFieldsV1 f)\<lparr>Unsigned := unsigned\<rparr>\<rparr>))\<rparr>)
      | FormatV2 f \<Rightarrow>
          Inr (e\<lparr>evFields := FormatV2 (fixNilSlicesV2
                 (f\<lparr>eventFieldsV2 := (eventFieldsV2 f)\<lparr>Unsigned := unsigned\<rparr>\<rparr>))\<rparr>)
      | _ \<Rightarrow> Inl (UnsupportedRoomVersionError (roomVersion e)))"

text \<open>The argument \<open>unsigned\<close> of \<open>SetUnsigned\<close> is given by what \<open>json.Marshal\<close> makes of
  it: an error or a JSON value.\<close>

definition SetUnsigned :: "Event \<Rightarrow> error + json \<Rightarrow> Event \<times> (error + Event)" where
  "SetUnsigned e unsigned =
     (case unmarshalMap (eventJSON e) of
        Inl err \<Rightarrow> (e, Inl err)
      | Inr eventAsMap \<Rightarrow>
          (case unsigned of
             Inl err \<Rightarrow> (e, Inl err)
           | Inr unsignedJSON \<Rightarrow>
               (case assignMap ''unsigned'' unsignedJSON eventAsMap of
                  Inl err \<Rightarrow> (e, Inl err)
                | Inr eventAsMap1 \<Rightarrow>
                    (case CanonicalJSON (marshalMap eventAsMap1) of
                       Inl err \<Rightarrow> (e, Inl err)
                     | Inr eventJSON0 \<Rightarrow>
                         (case updateUnsignedFields e (Some unsignedJSON) of
                            Inl err \<Rightarrow> (e, Inl err)
                          | Inr e1 \<Rightarrow> (e1, Inr (e1\<lparr>eventJSON := eventJSON0\<rparr>)))))))"

definition SetUnsignedField :: "collab \<Rightarrow> Event \<Rightarrow> string \<Rightarrow> json \<Rightarrow> Event \<times> error option" where
  "SetUnsignedField X e path val =
     (case external (sjsonSetBytes X (eventJSON e) (''unsigned.'' @ path) val) of
        Inl err \<Rightarrow> (e, Some err)
      | Inr eventJSON0 \<Rightarrow>
          let eventJSON1 = CanonicalJSONAssumeValid eventJSON0;
              unsigned = gjsonGetRaw X eventJSON1 ''unsigned''
          in (case updateUnsignedFields e unsigned of
                Inl err \<Rightarrow> (e, Some err)
              | Inr e1 \<Rightarrow> (e1\<lparr>eventJSON := eventJSON1\<rparr>, None)))"

section \<open>Building events\<close>

text \<open>\<open>PrevEvents\<close> and \<open>AuthEvents\<close> of an \<open>EventBuilder\<close> are \<open>interface{}\<close> values: nil,
  a \<open>[]EventReference\<close>, a \<open>[]string\<close> (either of them possibly a nil slice), or a value
  of any other type, given by its JSON encoding.\<close>

datatype refs =
    NilRefs
  | EventReferences "EventReference list option"
  | EventIDs "string list option"
  | OtherRefs json

record EventBuilder =
  ebSender :: string
  ebRoomID :: string
  ebType :: string
  ebStateKey :: "string option"
  ebPrevEvents :: refs
  ebAuthEvents :: refs
  ebRedacts :: string
  ebDepth :: int
  ebContent :: rawJSON
  ebUnsigned :: rawJSON

text \<open>The switch of \<open>Build\<close> on the event format, for one of the two fields.\<close>

definition buildRefs :: "EventFormat \<Rightarrow> refs \<Rightarrow> refs" where
  "buildRefs eventFormat0 r =
     (case eventFormat0 of
        EventFormatV1 \<Rightarrow> (if r = NilRefs then EventReferences (Some []) else r)
      | EventFormatV2 \<Rightarrow>
          (case r of
             EventReferences prevEvents \<Rightarrow>
               EventIDs (Some (map refEventID (case prevEvents of None \<Rightarrow> [] | Some rs \<Rightarrow> rs)))
           | _ \<Rightarrow> EventIDs (Some [])))"

text \<open>\<open>json.Marshal\<close> of the struct that \<open>Build\<close> fills in: the fields of the embedded
  \<open>EventBuilder\<close> first, then \<open>event_id\<close>, \<open>origin_server_ts\<close>, \<open>origin\<close> and
  \<open>prev_state\<close>. An \<open>EventReference\<close> is written as the pair of its ID and its hashes;
  an integer as its decimal literal; an empty \<open>content\<close> cannot be written.\<close>

fun digitsOf :: "nat \<Rightarrow> string" where
  "digitsOf n =
     (if n < 10 then [''0123456789'' ! n]
      else digitsOf (n div 10) @ [''0123456789'' ! (n mod 10)])"

definition decimal :: "int \<Rightarrow> string" where
  "decimal i = (if i < 0 then CHR ''-'' # digitsOf (nat (- i)) else digitsOf (nat i))"

definition marshalEventReference :: "collab \<Rightarrow> EventReference \<Rightarrow> json" where
  "marshalEventReference X er =
     JArr [JStr (refEventID er), JObj [(''sha256'', marshalBase64 X (EventSHA256 er))]]"

definition marshalRefs :: "collab \<Rightarrow> refs \<Rightarrow> json" where
  "marshalRefs X r =
     (case r of
        NilRefs \<Rightarrow> JNull
      | EventReferences None \<Rightarrow> JNull
      | EventReferences (Some rs) \<Rightarrow> JArr (map (marshalEventReference X) rs)
      | EventIDs None \<Rightarrow> JNull
      | EventIDs (Some ids) \<Rightarrow> JArr (map JStr ids)
      | OtherRefs j \<Rightarrow> j)"

definition marshalBuildEvent ::
  "collab \<Rightarrow> EventBuilder \<Rightarrow> string \<Rightarrow> int \<Rightarrow> string \<Rightarrow> bool \<Rightarrow> error + bytes" where
  "marshalBuildEvent X event eventID0 originServerTS0 origin0 prevState =
     (case ebContent event of
        None \<Rightarrow> Inl MarshalError
      | Some content \<Rightarrow>
          Inr (Text (JObj
            ([(''sender'', JStr (ebSender event)), (''room_id'', JStr (ebRoomID event)),
              (''type'', JStr (ebType event))]
             @ (case ebStateKey event of None \<Rightarrow> [] | Some sk \<Rightarrow> [(''state_key'', JStr sk)])
             @ [(''prev_events'', marshalRefs X (ebPrevEvents event)),
                (''auth_events'', marshalRefs X (ebAuthEvents event))]
             @ (if ebRedacts event = [] then [] else [(''redacts'', JStr (ebRedacts event))])
             @ [(''depth'', JNum (decimal (ebDepth event))), (''content'', content)]
             @ (case ebUnsigned event of None \<Rightarrow> [] | Some u \<Rightarrow> [(''unsigned'', u)])
             @ [(''event_id'', JStr eventID0), (''origin_server_ts'', JNum (decimal originServerTS0)),
                (''origin'', JStr origin0)]
             @ (if prevState then [(''prev_state'', JArr [])] else [])))))"

text \<open>The struct as \<open>Build\<close> has filled it in when it marshals it: the builder with its
  \<open>PrevEvents\<close> and \<open>AuthEvents\<close> put into the event format.\<close>

definition buildEvent :: "EventFormat \<Rightarrow> EventBuilder \<Rightarrow> EventBuilder" where
  "buildEvent eventFormat0 eb =
     eb\<lparr>ebPrevEvents := buildRefs eventFormat0 (ebPrevEvents eb),
        ebAuthEvents := buildRefs eventFormat0 (ebAuthEvents eb)\<rparr>"

text \<open>\<open>Build\<close>; the time \<open>now\<close> is given as a timestamp and the result of
  \<open>util.RandomString(16)\<close> as the argument \<open>randomString\<close>.\<close>

definition Build ::
  "collab \<Rightarrow> EventBuilder \<Rightarrow> int \<Rightarrow> string \<Rightarrow> string \<Rightarrow> string \<Rightarrow> string \<Rightarrow> string
     \<Rightarrow> error + Event" where
  "Build X eb now origin0 keyID privateKey roomVersion0 randomString =
     (case RoomVersion_EventFormat roomVersion0 of
        Inl err \<Rightarrow> Inl err
      | Inr eventFormat0 \<Rightarrow>
     (case RoomVersion_EventIDFormat roomVersion0 of
        Inl err \<Rightarrow> Inl err
      | Inr eventIDFormat0 \<Rightarrow>
     (let eventID0 = (if eventIDFormat0 = EventIDFormatV1
                      then ''$'' @ randomString @ '':'' @ origin0 else [])
      in
     (case marshalBuildEvent X (buildEvent eventFormat0 eb) eventID0 now origin0
             (ebStateKey eb \<noteq> None) of
        Inl err \<Rightarrow> Inl err
      | Inr eventJSON0 \<Rightarrow>
     (case (if eventFormat0 = EventFormatV2
            then external (sjsonDeleteBytes X eventJSON0 ''event_id'')
            else Inr eventJSON0) of
        Inl err \<Rightarrow> Inl err
      | Inr eventJSON1 \<Rightarrow>
     (case addContentHashesToEvent X eventJSON1 of
        Inl err \<Rightarrow> Inl err
      | Inr eventJSON2 \<Rightarrow>
     (case signEvent X origin0 keyID privateKey eventJSON2 of
        Inl err \<Rightarrow> Inl err
      | Inr eventJSON3 \<Rightarrow>
     (case CanonicalJSON eventJSON3 of
        Inl err \<Rightarrow> Inl err
      | Inr eventJSON4 \<Rightarrow>
     (case populateFieldsFromJSON X
             (zeroEvent\<lparr>roomVersion := roomVersion0, eventJSON := eventJSON4\<rparr>) eventJSON4 of
        Inl err \<Rightarrow> Inl err
      | Inr result \<Rightarrow>
     (case CheckFields X result of
        Some err \<Rightarrow> Inl err
      | None \<Rightarrow> Inr result))))))))))"

section \<open>Sample collaborators\<close>

text \<open>
  An instance of the collaborators, to run the model on concrete events: IDs are split at
  the first colon, as \<open>SplitID\<close> does; the \<open>sjson\<close> and \<open>gjson\<close> calls are those on plain
  keys of the top-level object; the decoder of the field formats reads the string fields;
  the digest lists the keys of what it is given, the signer adds a \<open>signatures\<close> member,
  and a \<open>Base64String\<close> is written as it is. The digest and the signer stand for SHA-256
  and Ed25519, which the model cannot run.
\<close>

definition sampleDomainFromID :: "string \<Rightarrow> string + string" where
  "sampleDomainFromID ident =
     (case dropWhile (\<lambda>c. c \<noteq> CHR '':'') ident of
        [] \<Rightarrow> Inl ''invalid ID''
      | c # domain \<Rightarrow> Inr domain)"

definition sampleString :: "(string \<times> json) list \<Rightarrow> string \<Rightarrow> string" where
  "sampleString ms k = (case map_of ms k of Some (JStr s) \<Rightarrow> s | _ \<Rightarrow> [])"

definition sampleEventFields :: "(string \<times> json) list \<Rightarrow> eventFields" where
  "sampleEventFields ms =
     \<lparr>EventID = sampleString ms ''event_id'', RoomID = sampleString ms ''room_id'',
      Sender = sampleString ms ''sender'', Type = sampleString ms ''type'',
      StateKey = (case map_of ms ''state_key'' of Some (JStr s) \<Rightarrow> Some s | _ \<Rightarrow> None),
      Content = map_of ms ''content'', Redacts = sampleString ms ''redacts'', Depth = 0,
      Unsigned = map_of ms ''unsigned'', OriginServerTS = 0,
      Origin = sampleString ms ''origin''\<rparr>"

definition sampleIDs :: "(string \<times> json) list \<Rightarrow> string \<Rightarrow> string list option" where
  "sampleIDs ms k =
     (case map_of ms k of
        Some (JArr xs) \<Rightarrow> Some (concat (map (\<lambda>x. case x of JStr s \<Rightarrow> [s] | _ \<Rightarrow> []) xs))
      | _ \<Rightarrow> None)"

definition sampleUnmarshalV1 :: "bytes \<Rightarrow> string + eventFormatV1Fields" where
  "sampleUnmarshalV1 b =
     (case b of
        Text (JObj ms) \<Rightarrow>
          Inr \<lparr>eventFieldsV1 = sampleEventFields ms,
               PrevEventsV1 = map_option (map (\<lambda>i. \<lparr>refEventID = i, EventSHA256 = []\<rparr>))
                                (sampleIDs ms ''prev_events''),
               AuthEventsV1 = map_option (map (\<lambda>i. \<lparr>refEventID = i, EventSHA256 = []\<rparr>))
                                (sampleIDs ms ''auth_events'')\<rparr>
      | _ \<Rightarrow> Inl ''not an object'')"

definition sampleUnmarshalV2 :: "bytes \<Rightarrow> string + eventFormatV2Fields" where
  "sampleUnmarshalV2 b =
     (case b of
        Text (JObj ms) \<Rightarrow>
          Inr \<lparr>eventFieldsV2 = sampleEventFields ms,
               PrevEventsV2 = sampleIDs ms ''prev_events'',
               AuthEventsV2 = sampleIDs ms ''auth_events''\<rparr>
      | _ \<Rightarrow> Inl ''not an object'')"

definition sampleDelete :: "bytes \<Rightarrow> string \<Rightarrow> string + bytes" where
  "sampleDelete b k =
     (case b of Text (JObj ms) \<Rightarrow> Inr (Text (JObj (AList.delete k ms))) | _ \<Rightarrow> Inr b)"

definition sampleSet :: "bytes \<Rightarrow> string \<Rightarrow> json \<Rightarrow> string + bytes" where
  "sampleSet b path val =
     (case b of
        Text (JObj ms) \<Rightarrow>
          let us = (case map_of ms ''unsigned'' of Some (JObj us) \<Rightarrow> us | _ \<Rightarrow> [])
          in Inr (Text (JObj (AList.update ''unsigned''
                   (JObj (AList.update (drop 9 path) val us)) ms)))
      | _ \<Rightarrow> Inl ''not an object'')"

definition sampleGet :: "bytes \<Rightarrow> string \<Rightarrow> rawJSON" where
  "sampleGet b k = (case b of Text (JObj ms) \<Rightarrow> map_of ms k | _ \<Rightarrow> None)"

definition sampleDigest :: "bytes \<Rightarrow> string" where
  "sampleDigest b = (case b of Text (JObj ms) \<Rightarrow> concat (map fst ms) | _ \<Rightarrow> [])"

definition sampleSign :: "string \<Rightarrow> string \<Rightarrow> string \<Rightarrow> bytes \<Rightarrow> string + bytes" where
  "sampleSign signingName keyID privateKey b =
     (case b of
        Text (JObj ms) \<Rightarrow>
          Inr (Text (JObj (ms @ [(''signatures'',
                 JObj [(signingName, JObj [(keyID, JStr privateKey)])])])))
      | _ \<Rightarrow> Inl ''not an object'')"

definition sampleUnbase64 :: "json \<Rightarrow> string + string" where
  "sampleUnbase64 j = (case j of JStr s \<Rightarrow> Inr s | JNull \<Rightarrow> Inr [] | _ \<Rightarrow> Inl ''not a string'')"

definition sampleLen :: "bytes \<Rightarrow> nat" where
  "sampleLen b = (case b of Text j \<Rightarrow> size j | NotJSON \<Rightarrow> 0)"

definition sample :: collab where
  "sample =
     \<lparr>Sum256 = sampleDigest, SignJSON = sampleSign, marshalBase64 = JStr,
      unmarshalBase64 = sampleUnbase64, sjsonDeleteBytes = sampleDelete,
      sjsonSetBytes = sampleSet, gjsonGetRaw = sampleGet, unmarshalV1 = sampleUnmarshalV1,
      unmarshalV2 = sampleUnmarshalV2, domainFromID = sampleDomainFromID, len = sampleLen\<rparr>"

section \<open>Sample events\<close>

text \<open>A power-levels event with a content key outside the allow-list, a top-level key
  outside it, and the sender given twice, in two spellings.\<close>

definition powerLevelsEvent :: bytes where
  "powerLevelsEvent = Text (JObj
     [(''type'', JStr ''m.room.power_levels''),
      (''sender'', JStr ''@alice:example.org''),
      (''Sender'', JStr ''@mallory:example.org''),
      (''age_ts'', JNum ''5''),
      (''content'', JObj [(''ban'', JNum ''50''), (''extra'', JBool True), (''users'', JObj [])])])"

definition powerLevelsRedacted :: bytes where
  "powerLevelsRedacted = Text (JObj
     [(''sender'', JStr ''@mallory:example.org''),
      (''content'', JObj [(''users'', JObj []), (''ban'', JNum ''50'')]),
      (''type'', JStr ''m.room.power_levels'')])"

text \<open>The same event as an \<open>Event\<close> of room version 1 that is not redacted, and its
  redacted copy.\<close>

definition powerLevels :: Event where
  "powerLevels =
     \<lparr>redacted = False, eventJSON = powerLevelsEvent,
      evFields = FormatV1
        \<lparr>eventFieldsV1 =
           \<lparr>EventID = [], RoomID = [], Sender = ''@mallory:example.org'',
            Type = ''m.room.power_levels'', StateKey = None,
            Content = Some (JObj [(''ban'', JNum ''50''), (''extra'', JBool True),
                                  (''users'', JObj [])]),
            Redacts = [], Depth = 0, Unsigned = None, OriginServerTS = 0, Origin = []\<rparr>,
         PrevEventsV1 = Some [], AuthEventsV1 = Some []\<rparr>,
      roomVersion = ''1''\<rparr>"

definition powerLevelsCanonical :: json where
  "powerLevelsCanonical = JObj
     [(''content'', JObj [(''ban'', JNum ''50''), (''users'', JObj [])]),
      (''sender'', JStr ''@mallory:example.org''),
      (''type'', JStr ''m.room.power_levels'')]"

definition powerLevelsRedactedCopy :: Event where
  "powerLevelsRedactedCopy =
     \<lparr>redacted = True, eventJSON = Text powerLevelsCanonical,
      evFields = Generic powerLevelsCanonical, roomVersion = []\<rparr>"

text \<open>Events of room versions 1 and 3 whose sender is on another server than their
  origin: a message and a membership.\<close>

definition crossDomainFields :: "string \<Rightarrow> eventFields" where
  "crossDomainFields ty =
     \<lparr>EventID = ''$e1:example.org'', RoomID = ''!room:example.org'',
      Sender = ''@mallory:elsewhere.org'', Type = ty, StateKey = None,
      Content = Some (JObj []), Redacts = [], Depth = 1, Unsigned = None,
      OriginServerTS = 0, Origin = ''example.org''\<rparr>"

definition crossDomainV1 :: "string \<Rightarrow> Event" where
  "crossDomainV1 ty =
     \<lparr>redacted = False, eventJSON = Text (JObj []),
      evFields = FormatV1 \<lparr>eventFieldsV1 = crossDomainFields ty, PrevEventsV1 = Some [],
                            AuthEventsV1 = Some []\<rparr>,
      roomVersion = ''1''\<rparr>"

definition crossDomainV3 :: "string \<Rightarrow> Event" where
  "crossDomainV3 ty =
     \<lparr>redacted = False, eventJSON = Text (JObj []),
      evFields = FormatV2 \<lparr>eventFieldsV2 = crossDomainFields ty, PrevEventsV2 = Some [],
                            AuthEventsV2 = Some []\<rparr>,
      roomVersion = ''3''\<rparr>"

text \<open>Events whose projection has a nil slice.\<close>

definition nilPrevV1 :: Event where
  "nilPrevV1 =
     \<lparr>redacted = False, eventJSON = Text (JObj []),
      evFields = FormatV1 \<lparr>eventFieldsV1 = crossDomainFields ''m.room.message'',
                            PrevEventsV1 = None, AuthEventsV1 = Some []\<rparr>,
      roomVersion = ''1''\<rparr>"

definition nilAuthV2 :: Event where
  "nilAuthV2 =
     \<lparr>redacted = False, eventJSON = Text (JObj []),
      evFields = FormatV2 \<lparr>eventFieldsV2 = crossDomainFields ''m.room.message'',
                            PrevEventsV2 = Some [], AuthEventsV2 = None\<rparr>,
      roomVersion = ''3''\<rparr>"

text \<open>What \<open>Sign\<close> returns for the room-version-1 membership, with the sample signer.\<close>

definition memberSigned :: Event where
  "memberSigned =
     \<lparr>redacted = False,
      eventJSON = Text (JObj [(''signatures'',
        JObj [(''example.org'', JObj [(''ed25519:1'', JStr ''secret'')])])]),
      evFields = FormatV1 \<lparr>eventFieldsV1 = crossDomainFields ''m.room.member'',
                            PrevEventsV1 = Some [], AuthEventsV1 = Some []\<rparr>,
      roomVersion = []\<rparr>"

text \<open>The membership after \<open>SetUnsignedField\<close> has put \<open>age\<close> under \<open>unsigned\<close>, and after
  \<open>SetUnsigned\<close> has set \<open>unsigned\<close> to the same object.\<close>

definition memberWithAge :: Event where
  "memberWithAge =
     \<lparr>redacted = False,
      eventJSON = Text (JObj [(''unsigned'', JObj [(''age'', JNum ''1'')])]),
      evFields = FormatV1
        \<lparr>eventFieldsV1 = (crossDomainFields ''m.room.member'')
           \<lparr>Unsigned := Some (JObj [(''age'', JNum ''1'')])\<rparr>,
         PrevEventsV1 = Some [], AuthEventsV1 = Some []\<rparr>,
      roomVersion = ''1''\<rparr>"

definition notJSONEvent :: Event where
  "notJSONEvent = (crossDomainV1 ''m.room.member'')\<lparr>eventJSON := NotJSON\<rparr>"



text \<open>An event of room version 4 that declares an event ID of its own.\<close>

definition forgedJSON :: bytes where
  "forgedJSON = Text (JObj
     [(''event_id'', JStr ''$forged''), (''room_id'', JStr ''!room:example.org''),
      (''sender'', JStr ''@mallory:example.org''), (''type'', JStr ''m.room.message''),
      (''origin'', JStr ''example.org''), (''prev_events'', JArr []), (''auth_events'', JArr []),
      (''content'', JObj [])])"

text \<open>The projection of a message of room version 1 with the given content.\<close>

definition messageFields :: "rawJSON \<Rightarrow> fields" where
  "messageFields content =
     FormatV1
       \<lparr>eventFieldsV1 =
          \<lparr>EventID = ''$e1:example.org'', RoomID = ''!room:example.org'',
           Sender = ''@alice:example.org'', Type = ''m.room.message'', StateKey = None,
           Content = content, Redacts = [], Depth = 0, Unsigned = None,
           OriginServerTS = 0, Origin = ''example.org''\<rparr>,
        PrevEventsV1 = Some [], AuthEventsV1 = Some []\<rparr>"

text \<open>A message of room version 1 whose declared content hash is not the digest of the
  event, as a remote server might send it; what ingestion has parsed of it and its canonical
  bytes when the hash is checked; the canonical bytes of its redaction; and the event that
  ingestion returns.\<close>

definition tamperedJSON :: bytes where
  "tamperedJSON = Text (JObj
     [(''type'', JStr ''m.room.message''), (''event_id'', JStr ''$e1:example.org''),
      (''room_id'', JStr ''!room:example.org''), (''sender'', JStr ''@alice:example.org''),
      (''origin'', JStr ''example.org''), (''prev_events'', JArr []), (''auth_events'', JArr []),
      (''age_ts'', JNum ''7''), (''content'', JObj [(''body'', JStr ''hello'')]),
      (''hashes'', JObj [(''sha256'', JStr ''tampered'')])])"

definition tamperedParsed :: Event where
  "tamperedParsed =
     \<lparr>redacted = False, eventJSON = NotJSON,
      evFields = messageFields (Some (JObj [(''body'', JStr ''hello'')])), roomVersion = ''1''\<rparr>"

definition tamperedCanonical :: bytes where
  "tamperedCanonical = Text (JObj
     [(''auth_events'', JArr []), (''content'', JObj [(''body'', JStr ''hello'')]),
      (''event_id'', JStr ''$e1:example.org''),
      (''hashes'', JObj [(''sha256'', JStr ''tampered'')]), (''origin'', JStr ''example.org''),
      (''prev_events'', JArr []), (''room_id'', JStr ''!room:example.org''),
      (''sender'', JStr ''@alice:example.org''), (''type'', JStr ''m.room.message'')])"

definition tamperedRedacted :: bytes where
  "tamperedRedacted = Text (JObj
     [(''auth_events'', JArr []), (''content'', JObj []),
      (''event_id'', JStr ''$e1:example.org''),
      (''hashes'', JObj [(''sha256'', JStr ''tampered'')]), (''origin'', JStr ''example.org''),
      (''prev_events'', JArr []), (''room_id'', JStr ''!room:example.org''),
      (''sender'', JStr ''@alice:example.org''), (''type'', JStr ''m.room.message'')])"

definition tamperedResult :: Event where
  "tamperedResult =
     \<lparr>redacted = True, eventJSON = tamperedRedacted,
      evFields = messageFields (Some (JObj [])), roomVersion = ''1''\<rparr>"

text \<open>The same with an empty content, so that redaction changes nothing, and without the
  room ID, so that the validator rejects it.\<close>

definition tamperedNoRoom :: bytes where
  "tamperedNoRoom = Text (JObj
     [(''auth_events'', JArr []), (''content'', JObj []),
      (''event_id'', JStr ''$e1:example.org''),
      (''hashes'', JObj [(''sha256'', JStr ''tampered'')]), (''origin'', JStr ''example.org''),
      (''prev_events'', JArr []),
      (''sender'', JStr ''@alice:example.org''), (''type'', JStr ''m.room.message'')])"

definition tamperedNoRoomParsed :: Event where
  "tamperedNoRoomParsed =
     \<lparr>redacted = False, eventJSON = NotJSON,
      evFields = FormatV1
       \<lparr>eventFieldsV1 =
          \<lparr>EventID = ''$e1:example.org'', RoomID = [],
           Sender = ''@alice:example.org'', Type = ''m.room.message'', StateKey = None,
           Content = Some (JObj []), Redacts = [], Depth = 0, Unsigned = None,
           OriginServerTS = 0, Origin = ''example.org''\<rparr>,
        PrevEventsV1 = Some [], AuthEventsV1 = Some []\<rparr>,
      roomVersion = ''1''\<rparr>"

text \<open>An event of room version 1 that gives no \<open>prev_events\<close> and has \<open>null\<close> for its
  \<open>auth_events\<close>; and the event that parsing makes of it.\<close>

definition absentRefsJSON :: bytes where
  "absentRefsJSON = Text (JObj
     [(''auth_events'', JNull), (''content'', JObj []),
      (''event_id'', JStr ''$e1:example.org''), (''origin'', JStr ''example.org''),
      (''room_id'', JStr ''!room:example.org''), (''sender'', JStr ''@alice:example.org''),
      (''type'', JStr ''m.room.message'')])"

definition absentRefsEvent :: "bool \<Rightarrow> Event" where
  "absentRefsEvent r =
     \<lparr>redacted = r, eventJSON = absentRefsJSON,
      evFields = messageFields (Some (JObj [])), roomVersion = ''1''\<rparr>"

text \<open>A message before it is hashed; the message with its content hash, as
  \<open>addContentHashesToEvent\<close> returns it; the hashed message with a signature, as a remote
  server sends it; and what \<open>addContentHashesToEvent\<close> makes of the signed message.\<close>

definition plainMessage :: bytes where
  "plainMessage = Text (JObj
     [(''type'', JStr ''m.room.message''), (''content'', JObj []),
      (''unsigned'', JObj [(''age'', JNum ''1'')])])"

definition plainHashed :: bytes where
  "plainHashed = Text (JObj
     [(''content'', JObj []), (''hashes'', JObj [(''sha256'', JStr ''contenttype'')]),
      (''type'', JStr ''m.room.message''), (''unsigned'', JObj [(''age'', JNum ''1'')])])"

definition signedHashed :: bytes where
  "signedHashed = Text (JObj
     [(''content'', JObj []), (''hashes'', JObj [(''sha256'', JStr ''contenttype'')]),
      (''signatures'', JObj [(''example.org'', JObj [(''ed25519:1'', JStr ''secret'')])]),
      (''type'', JStr ''m.room.message''), (''unsigned'', JObj [(''age'', JNum ''1'')])])"

definition signedRehashed :: bytes where
  "signedRehashed = Text (JObj
     [(''content'', JObj []), (''hashes'', JObj [(''sha256'', JStr ''contentsignaturestype'')]),
      (''signatures'', JObj [(''example.org'', JObj [(''ed25519:1'', JStr ''secret'')])]),
      (''type'', JStr ''m.room.message''), (''unsigned'', JObj [(''age'', JNum ''1'')])])"

section \<open>Redaction keeps the allow-list\<close>

lemma retag_append: "retag tags (xs @ ys) = retag tags xs @ retag tags ys"
  by (simp add: retag_def map_filter_def)

lemma retag_Cons:
  "retag tags (m # ms) =
     (case matchField tags (fst m) of None \<Rightarrow> retag tags ms | Some t \<Rightarrow> (t, snd m) # retag tags ms)"
  by (simp add: retag_def map_filter_def split: option.splits)

lemma retag_Nil: "retag tags [] = []"
  by (simp add: retag_def map_filter_def)

lemma unmarshalRawStruct_declared:
  "unmarshalRawStruct tags s ms t =
     (case declared tags ms t of None \<Rightarrow> s t | Some v \<Rightarrow> Some v)"
proof (induction ms rule: rev_induct)
  case Nil
  show ?case by (simp add: unmarshalRawStruct_def declared_def retag_Nil)
next
  case (snoc m ms)
  then show ?case
    by (auto simp: unmarshalRawStruct_def declared_def retag_append retag_Cons retag_Nil
        storeRaw_def split: option.splits)
qed

lemma contentMembers_append:
  "contentMembers (xs @ ys) = contentMembers xs @ contentMembers ys"
  by (induction xs rule: contentMembers.induct) auto

lemma lastType_append: "lastType (xs @ ys) ty = lastType ys (lastType xs ty)"
  by (induction xs ty rule: lastType.induct) auto

lemma unmarshalRawStruct_append:
  "unmarshalRawStruct tags s (xs @ ys) = unmarshalRawStruct tags (unmarshalRawStruct tags s xs) ys"
  by (simp add: unmarshalRawStruct_def)

lemma unmarshalRawStruct_Nil: "unmarshalRawStruct tags s [] = s"
  by (simp add: unmarshalRawStruct_def)

lemma matchField_mem: "matchField tags k = Some t \<Longrightarrow> t \<in> set tags"
  by (auto simp: matchField_def find_Some_iff split: if_splits)

lemma matchField_exact: "t \<in> set tags \<Longrightarrow> matchField tags t = Some t"
  by (simp add: matchField_def)

lemma decode_rfContent:
  "rfContent (fst (foldl decodeMember st ms)) =
     unmarshalRawStruct allContent (rfContent (fst st)) (contentMembers (retag eventFieldTags ms))"
proof (induction ms rule: rev_induct)
  case Nil
  show ?case by (simp add: retag_Nil unmarshalRawStruct_Nil)
next
  case (snoc m ms)
  then show ?case
    by (auto simp: retag_append retag_Cons retag_Nil contentMembers_append
        unmarshalRawStruct_append unmarshalRawStruct_Nil decodeMember_def
        split: option.splits json.splits)
qed

lemma decode_rfType:
  "rfType (fst (foldl decodeMember st ms)) = lastType (retag eventFieldTags ms) (rfType (fst st))"
proof (induction ms rule: rev_induct)
  case Nil
  show ?case by (simp add: retag_Nil)
next
  case (snoc m ms)
  then show ?case
    by (auto simp: retag_append retag_Cons retag_Nil lastType_append decodeMember_def
        split: option.splits json.splits)
qed

lemma decode_rfRaw:
  "t \<noteq> ''content'' \<Longrightarrow> t \<noteq> ''type'' \<Longrightarrow>
   rfRaw (fst (foldl decodeMember st ms)) t =
     (case declared eventFieldTags ms t of None \<Rightarrow> rfRaw (fst st) t | Some v \<Rightarrow> Some v)"
proof (induction ms rule: rev_induct)
  case Nil
  show ?case by (simp add: retag_Nil declared_def)
next
  case (snoc m ms)
  then show ?case
    by (auto simp: retag_append retag_Cons retag_Nil declared_def decodeMember_def
        split: option.splits json.splits)
qed

lemma map_fst_marshalRawStruct:
  "map fst (marshalRawStruct tags s) = filter (\<lambda>t. s t \<noteq> None) tags"
  by (induction tags) (auto simp: marshalRawStruct_def map_filter_def)

lemma keys_marshalRawStruct: "set (map fst (marshalRawStruct tags s)) \<subseteq> set tags"
  by (simp add: map_fst_marshalRawStruct)


lemma map_of_marshalRawStruct:
  "map_of (marshalRawStruct tags s) t = (if t \<in> set tags then s t else None)"
  by (induction tags) (auto simp: marshalRawStruct_def map_filter_def)

lemma marshalRawStruct_cong:
  "(\<And>t. t \<in> set tags \<Longrightarrow> s t = s' t) \<Longrightarrow> marshalRawStruct tags s = marshalRawStruct tags s'"
  by (induction tags) (auto simp: marshalRawStruct_def map_filter_def)

lemma retag_exact: "set (map fst ms) \<subseteq> set tags \<Longrightarrow> retag tags ms = ms"
  by (induction ms) (auto simp: retag_Cons retag_Nil matchField_exact)

lemma map_of_rev_distinct: "distinct (map fst xs) \<Longrightarrow> map_of (rev xs) = map_of xs"
proof (induction xs)
  case Nil
  show ?case by simp
next
  case (Cons x xs)
  then have "map_of xs (fst x) = None"
    by (simp add: map_of_eq_None_iff)
  with Cons show ?case
    by (cases x) (auto simp: fun_eq_iff map_add_def split: option.splits)
qed

lemma declared_exact:
  "set (map fst ms) \<subseteq> set tags \<Longrightarrow> distinct (map fst ms) \<Longrightarrow> declared tags ms = map_of ms"
  by (simp add: declared_def retag_exact map_of_rev_distinct)

lemma contentMembers_none: "''content'' \<notin> set (map fst ms) \<Longrightarrow> contentMembers ms = []"
  by (induction ms rule: contentMembers.induct) auto

lemma lastType_none: "''type'' \<notin> set (map fst ms) \<Longrightarrow> lastType ms ty = ty"
  by (induction ms ty rule: lastType.induct) auto

lemma decode_error:
  "snd (foldl decodeMember st ms) = None \<longleftrightarrow>
     snd st = None \<and> list_all wellTyped (retag eventFieldTags ms)"
proof (induction ms rule: rev_induct)
  case Nil
  show ?case by (simp add: retag_Nil)
next
  case (snoc m ms)
  then show ?case
    by (auto simp: retag_append retag_Cons retag_Nil decodeMember_def wellTyped_def saveError_def
        split: option.splits json.splits)
qed

lemma distinct_tags:
  "distinct eventFieldTags" "distinct allContent" "distinct fieldsBeforeContent"
  "distinct fieldsAfterType"
  by (simp_all add: eventFieldTags_def allContent_def fieldsBeforeContent_def
      fieldsAfterType_def createContent_def joinRulesContent_def powerLevelContent_def
      memberContent_def aliasesContent_def historyVisibilityContent_def)

lemma unmarshalEventFields_Inr:
  assumes "unmarshalEventFields b = Inr event"
  shows "rfType event = declaredType (members b)"
    and "rfContent event t = declaredContent (members b) t"
    and "t \<noteq> ''content'' \<Longrightarrow> t \<noteq> ''type'' \<Longrightarrow> rfRaw event t = declared eventFieldTags (members b) t"
proof -
  have ev: "event = fst (foldl decodeMember (zeroRedactFields, None) (members b))"
    using assms
    by (auto simp: unmarshalEventFields_def members_def
        split: bytes.splits json.splits prod.splits option.splits)
  show "rfType event = declaredType (members b)"
    by (simp add: ev decode_rfType declaredType_def zeroRedactFields_def)
  show "rfContent event t = declaredContent (members b) t"
    by (simp add: ev decode_rfContent declaredContent_def unmarshalRawStruct_declared
        zeroRedactFields_def zeroStruct_def split: option.splits)
  show "rfRaw event t = declared eventFieldTags (members b) t"
    if "t \<noteq> ''content''" "t \<noteq> ''type''"
    using that
    by (simp add: ev decode_rfRaw zeroRedactFields_def zeroStruct_def split: option.splits)
qed


lemma tags_apart:
  "''content'' \<notin> set fieldsBeforeContent" "''type'' \<notin> set fieldsBeforeContent"
  "''content'' \<notin> set fieldsAfterType" "''type'' \<notin> set fieldsAfterType"
  "set fieldsBeforeContent \<inter> set fieldsAfterType = {}"
  using distinct_tags(1) by (auto simp: eventFieldTags_def)

lemma keys_marshalEventFields:
  assumes "marshalEventFields ev = JObj fs"
  shows "distinct (map fst fs) \<and> set (map fst fs) \<subseteq> set eventFieldTags"
proof -
  have "map fst fs = filter (\<lambda>t. rfRaw ev t \<noteq> None) fieldsBeforeContent @ [''content'', ''type'']
      @ filter (\<lambda>t. rfRaw ev t \<noteq> None) fieldsAfterType"
    using assms by (auto simp: marshalEventFields_def map_fst_marshalRawStruct)
  then show ?thesis
    using distinct_tags(1) by (auto simp: eventFieldTags_def)
qed

lemma map_of_marshalEventFields:
  assumes "marshalEventFields ev = JObj fs"
  shows "map_of fs ''type'' = Some (JStr (rfType ev))"
    and "map_of fs ''content'' = Some (JObj (marshalRawStruct allContent (rfContent ev)))"
    and "t \<in> set rawFieldTags \<Longrightarrow> map_of fs t = rfRaw ev t"
proof -
  have fs: "fs = marshalRawStruct fieldsBeforeContent (rfRaw ev)
           @ [(''content'', JObj (marshalRawStruct allContent (rfContent ev))),
              (''type'', JStr (rfType ev))]
           @ marshalRawStruct fieldsAfterType (rfRaw ev)"
    using assms by (simp add: marshalEventFields_def)
  show "map_of fs ''type'' = Some (JStr (rfType ev))"
    by (simp add: fs map_add_def map_of_marshalRawStruct tags_apart)
  show "map_of fs ''content'' = Some (JObj (marshalRawStruct allContent (rfContent ev)))"
    by (simp add: fs map_add_def map_of_marshalRawStruct tags_apart)
  show "map_of fs t = rfRaw ev t" if "t \<in> set rawFieldTags"
  proof -
    from that tags_apart have "t \<noteq> ''content''" "t \<noteq> ''type''"
      by (auto simp: rawFieldTags_def)
    moreover from that tags_apart(5)
    have "(t \<in> set fieldsBeforeContent \<and> t \<notin> set fieldsAfterType)
        \<or> (t \<notin> set fieldsBeforeContent \<and> t \<in> set fieldsAfterType)"
      by (auto simp: rawFieldTags_def)
    ultimately show ?thesis
      by (auto simp: fs map_add_def map_of_marshalRawStruct split: option.splits)
  qed
qed


lemma wellTyped_other:
  "''content'' \<notin> set (map fst ms) \<Longrightarrow> ''type'' \<notin> set (map fst ms) \<Longrightarrow> list_all wellTyped ms"
  by (induction ms) (auto simp: wellTyped_def)

lemma unmarshalEventFields_obj:
  "snd (foldl decodeMember (zeroRedactFields, None) ms) = None \<Longrightarrow>
   unmarshalEventFields (Text (JObj ms)) = Inr (fst (foldl decodeMember (zeroRedactFields, None) ms))"
  by (cases "foldl decodeMember (zeroRedactFields, None) ms") (simp add: unmarshalEventFields_def)

lemma unmarshal_marshalEventFields:
  "\<exists>ev'. unmarshalEventFields (Text (marshalEventFields ev)) = Inr ev'
     \<and> rfType ev' = rfType ev
     \<and> (\<forall>t \<in> set allContent. rfContent ev' t = rfContent ev t)
     \<and> (\<forall>t \<in> set rawFieldTags. rfRaw ev' t = rfRaw ev t)"
proof -
  let ?A = "marshalRawStruct fieldsBeforeContent (rfRaw ev)"
  let ?C = "marshalRawStruct allContent (rfContent ev)"
  let ?B = "marshalRawStruct fieldsAfterType (rfRaw ev)"
  let ?ms = "?A @ [(''content'', JObj ?C), (''type'', JStr (rfType ev))] @ ?B"
  have m: "marshalEventFields ev = JObj ?ms"
    by (simp add: marshalEventFields_def)
  have keys: "distinct (map fst ?ms) \<and> set (map fst ?ms) \<subseteq> set eventFieldTags"
    by (rule keys_marshalEventFields [OF m])
  then have re: "retag eventFieldTags ?ms = ?ms"
    by (intro retag_exact) simp
  have kA: "''content'' \<notin> set (map fst ?A)" "''type'' \<notin> set (map fst ?A)"
    and kB: "''content'' \<notin> set (map fst ?B)" "''type'' \<notin> set (map fst ?B)"
    using tags_apart by (auto simp: map_fst_marshalRawStruct)
  have wt: "list_all wellTyped ?ms"
    using kA kB by (simp add: wellTyped_other) (simp add: wellTyped_def)
  let ?st = "foldl decodeMember (zeroRedactFields, None) ?ms"
  have err: "snd ?st = None"
    by (simp only: decode_error re) (use wt in simp)
  then have un: "unmarshalEventFields (Text (marshalEventFields ev)) = Inr (fst ?st)"
    unfolding m by (rule unmarshalEventFields_obj)
  have mem: "members (Text (marshalEventFields ev)) = ?ms"
    by (simp add: members_def m)
  have ty: "rfType (fst ?st) = rfType ev"
    using unmarshalEventFields_Inr(1) [OF un] kA kB
    by (simp only: mem declaredType_def re lastType_append) (simp add: lastType_none)
  have cm: "contentMembers ?ms = ?C"
    using kA kB by (simp add: contentMembers_append contentMembers_none)
  have keysC: "set (map fst ?C) \<subseteq> set allContent" "distinct (map fst ?C)"
    by (simp_all add: map_fst_marshalRawStruct distinct_tags)
  have co: "rfContent (fst ?st) t = rfContent ev t" if "t \<in> set allContent" for t
    using unmarshalEventFields_Inr(2) [OF un, of t] that
    by (simp only: mem declaredContent_def re cm declared_exact [OF keysC])
       (simp add: map_of_marshalRawStruct)
  have ra: "rfRaw (fst ?st) t = rfRaw ev t" if "t \<in> set rawFieldTags" for t
  proof -
    from that tags_apart have ne: "t \<noteq> ''content''" "t \<noteq> ''type''"
      by (auto simp: rawFieldTags_def)
    have "rfRaw (fst ?st) t = map_of ?ms t"
      using unmarshalEventFields_Inr(3) [OF un ne] keys
      by (simp only: mem) (simp only: declared_exact)
    also have "\<dots> = rfRaw ev t"
      by (rule map_of_marshalEventFields(3) [OF m that])
    finally show ?thesis .
  qed
  show ?thesis
  proof (intro exI conjI ballI)
    show "unmarshalEventFields (Text (marshalEventFields ev)) = Inr (fst ?st)"
      by (rule un)
    show "rfType (fst ?st) = rfType ev"
      by (rule ty)
    show "rfContent (fst ?st) t = rfContent ev t" if "t \<in> set allContent" for t
      by (rule co [OF that])
    show "rfRaw (fst ?st) t = rfRaw ev t" if "t \<in> set rawFieldTags" for t
      by (rule ra [OF that])
  qed
qed

lemma marshalEventFields_cong:
  assumes "rfType a = rfType b"
    and "\<And>t. t \<in> set allContent \<Longrightarrow> rfContent a t = rfContent b t"
    and "\<And>t. t \<in> set rawFieldTags \<Longrightarrow> rfRaw a t = rfRaw b t"
  shows "marshalEventFields a = marshalEventFields b"
proof -
  have "marshalRawStruct allContent (rfContent a) = marshalRawStruct allContent (rfContent b)"
    by (rule marshalRawStruct_cong) (rule assms(2))
  moreover have "marshalRawStruct fieldsBeforeContent (rfRaw a)
      = marshalRawStruct fieldsBeforeContent (rfRaw b)"
    by (rule marshalRawStruct_cong) (simp add: assms(3) rawFieldTags_def)
  moreover have "marshalRawStruct fieldsAfterType (rfRaw a)
      = marshalRawStruct fieldsAfterType (rfRaw b)"
    by (rule marshalRawStruct_cong) (simp add: assms(3) rawFieldTags_def)
  ultimately show ?thesis
    by (simp add: marshalEventFields_def assms(1))
qed

lemma RedactEvent_idem:
  assumes "RedactEvent b = Inr r"
  shows "RedactEvent r = Inr r"
proof -
  from assms obtain event where
    r: "r = Text (marshalEventFields (event\<lparr>rfContent := newContent event\<rparr>))"
    by (auto simp: RedactEvent_def split: sum.splits)
  let ?ev = "event\<lparr>rfContent := newContent event\<rparr>"
  obtain ev' where un: "unmarshalEventFields (Text (marshalEventFields ?ev)) = Inr ev'"
    and ty: "rfType ev' = rfType ?ev"
    and co: "\<forall>t \<in> set allContent. rfContent ev' t = rfContent ?ev t"
    and ra: "\<forall>t \<in> set rawFieldTags. rfRaw ev' t = rfRaw ?ev t"
    using unmarshal_marshalEventFields [of ?ev] by blast
  have "marshalEventFields (ev'\<lparr>rfContent := newContent ev'\<rparr>) = marshalEventFields ?ev"
  proof (rule marshalEventFields_cong)
    show "rfType (ev'\<lparr>rfContent := newContent ev'\<rparr>) = rfType ?ev"
      using ty by simp
    show "rfContent (ev'\<lparr>rfContent := newContent ev'\<rparr>) t = rfContent ?ev t"
      if "t \<in> set allContent" for t
      using that co ty by (simp add: newContent_def)
    show "rfRaw (ev'\<lparr>rfContent := newContent ev'\<rparr>) t = rfRaw ?ev t"
      if "t \<in> set rawFieldTags" for t
      using that ra by simp
  qed
  then show ?thesis
    by (simp add: RedactEvent_def r un)
qed






lemma powerLevelsEvent_type: "declaredType (members powerLevelsEvent) = ''m.room.power_levels''"
  by code_simp

section \<open>Redaction is idempotent\<close>

lemma Redact_redacted: "redacted e \<Longrightarrow> Redact e = (e, Inr e)"
  by (simp add: Redact_def)

lemma Redact_result_redacted: "snd (Redact e) = Inr e1 \<Longrightarrow> redacted e1"
  by (auto simp: Redact_def zeroEvent_def split: if_splits sum.splits)

text \<open>
  \<^bold>\<open>C9.\<close> Redacting twice is redacting once: on the event JSON, whenever \<open>RedactEvent\<close>
  succeeds on \<open>b\<close> it succeeds on its own result and returns it unchanged; on events,
  whenever \<open>e.Redact()\<close> returns (does not panic), redacting the returned event returns
  that very event and leaves it as it is.
\<close>

theorem redaction_idempotent:
  "(RedactEvent b = Inr r \<longrightarrow> RedactEvent r = Inr r) \<and>
   (snd (Redact e) = Inr e1 \<longrightarrow> Redact e1 = (e1, Inr e1))"
proof (intro conjI impI)
  assume "RedactEvent b = Inr r"
  then show "RedactEvent r = Inr r"
    by (rule RedactEvent_idem)
next
  assume "snd (Redact e) = Inr e1"
  then have "redacted e1"
    by (rule Redact_result_redacted)
  then show "Redact e1 = (e1, Inr e1)"
    by (rule Redact_redacted)
qed

theorem redaction_idempotent_witness:
  "RedactEvent powerLevelsEvent = Inr powerLevelsRedacted \<and>
   RedactEvent powerLevelsRedacted = Inr powerLevelsRedacted \<and>
   snd (Redact powerLevels) = Inr powerLevelsRedactedCopy \<and>
   Redact powerLevelsRedactedCopy = (powerLevelsRedactedCopy, Inr powerLevelsRedactedCopy)"
proof -
  have 1: "RedactEvent powerLevelsEvent = Inr powerLevelsRedacted"
    by code_simp
  have 2: "snd (Redact powerLevels) = Inr powerLevelsRedactedCopy"
    by code_simp
  from redaction_idempotent [of powerLevelsEvent powerLevelsRedacted powerLevels
      powerLevelsRedactedCopy] 1 2
  show ?thesis
    by simp
qed

section \<open>The field validator\<close>

lemma fixNilSlicesV1_not_nil:
  "PrevEventsV1 (fixNilSlicesV1 f) \<noteq> None \<and> AuthEventsV1 (fixNilSlicesV1 f) \<noteq> None"
  by (simp add: fixNilSlicesV1_def Let_def)

lemma fixNilSlicesV2_not_nil:
  "PrevEventsV2 (fixNilSlicesV2 f) \<noteq> None \<and> AuthEventsV2 (fixNilSlicesV2 f) \<noteq> None"
  by (simp add: fixNilSlicesV2_def Let_def)

text \<open>Parsing never leaves a nil slice behind: in an event that \<open>populateFieldsFromJSON\<close>
  has written, the validator's nil check does not fire, whatever the JSON held.\<close>

lemma checkID_not_NilSlices: "checkID X i k c \<noteq> Inl NilSlices"
  by (auto simp: checkID_def external_def split: sum.splits list.splits)

lemma checkDomains_not_NilSlices: "checkDomains X e fs sd \<noteq> Some NilSlices"
proof (cases "checkID X (EventID (eventFieldsV1 (case evFields e of FormatV1 f \<Rightarrow> f))) ''event'' (CHR ''$'')")
  case (Inl err)
  with checkID_not_NilSlices [of X _ "''event''" "CHR ''$''"] show ?thesis
    by (auto simp: checkDomains_def split: sum.splits fields.splits)
next
  case (Inr d)
  then show ?thesis
    by (auto simp: checkDomains_def split: sum.splits fields.splits)
qed

lemma checkEventFields_not_NilSlices: "checkEventFields X e fs \<noteq> Some NilSlices"
  using checkID_not_NilSlices [of X "RoomID fs" "''room''" "CHR ''!''"]
    checkID_not_NilSlices [of X "Sender fs" "''user''" "CHR ''@''"]
    checkDomains_not_NilSlices [of X e fs]
  by (auto simp: checkEventFields_def split: sum.splits)

lemma populateFieldsFromJSON_not_nil:
  assumes "populateFieldsFromJSON X e b = Inr e1"
  shows "CheckFields X (e1\<lparr>eventJSON := j\<rparr>) \<noteq> Some NilSlices"
proof -
  have "(\<exists>f. evFields e1 = FormatV1 (fixNilSlicesV1 f)) \<or> (\<exists>f. evFields e1 = FormatV2 (fixNilSlicesV2 f))"
    using assms
    by (auto simp: populateFieldsFromJSON_def split: sum.splits EventFormat.splits)
  then consider (v1) f where "evFields e1 = FormatV1 (fixNilSlicesV1 f)"
    | (v2) f where "evFields e1 = FormatV2 (fixNilSlicesV2 f)"
    by blast
  then show ?thesis
  proof cases
    case v1
    then show ?thesis
      using fixNilSlicesV1_not_nil [of f] checkEventFields_not_NilSlices
      by (simp add: CheckFields_def)
  next
    case v2
    then show ?thesis
      using fixNilSlicesV2_not_nil [of f] checkEventFields_not_NilSlices
      by (simp add: CheckFields_def)
  qed
qed

lemma populateFieldsFromJSON_slices:
  assumes "populateFieldsFromJSON X e b = Inr e1"
  shows "(\<exists>f. evFields e1 = FormatV1 f \<and> PrevEventsV1 f \<noteq> None \<and> AuthEventsV1 f \<noteq> None) \<or>
         (\<exists>f. evFields e1 = FormatV2 f \<and> PrevEventsV2 f \<noteq> None \<and> AuthEventsV2 f \<noteq> None)"
proof -
  have "(\<exists>f. evFields e1 = FormatV1 (fixNilSlicesV1 f)) \<or> (\<exists>f. evFields e1 = FormatV2 (fixNilSlicesV2 f))"
    using assms
    by (auto simp: populateFieldsFromJSON_def split: sum.splits EventFormat.splits)
  then show ?thesis
    using fixNilSlicesV1_not_nil fixNilSlicesV2_not_nil by blast
qed

text \<open>
  \<^bold>\<open>C8.\<close> \<open>CheckFields\<close> rejects every event whose projection has a nil \<open>PrevEvents\<close> or a
  nil \<open>AuthEvents\<close>, in either field format, with the error that says so; and an event it
  accepts has one of the two field formats with both slices present (possibly empty). But
  no parsed event has such a projection: \<open>populateFieldsFromJSON\<close>, and with it
  \<open>NewEventFromTrustedJSON\<close>, runs \<open>fixNilSlices\<close>, so whatever the JSON holds under
  \<open>prev_events\<close> and \<open>auth_events\<close> (nothing or \<open>null\<close> included) both slices of the
  projection are present, and \<open>CheckFields\<close> does not give the nil-slices error to the
  parsed event, whichever bytes it carries.
\<close>

theorem CheckFields_nil_slices:
  "(evFields e = FormatV1 f1 \<and> (PrevEventsV1 f1 = None \<or> AuthEventsV1 f1 = None)
      \<longrightarrow> CheckFields X e = Some NilSlices) \<and>
   (evFields e = FormatV2 f2 \<and> (PrevEventsV2 f2 = None \<or> AuthEventsV2 f2 = None)
      \<longrightarrow> CheckFields X e = Some NilSlices) \<and>
   (CheckFields X e = None \<longrightarrow>
      (\<exists>f. evFields e = FormatV1 f \<and> PrevEventsV1 f \<noteq> None \<and> AuthEventsV1 f \<noteq> None) \<or>
      (\<exists>f. evFields e = FormatV2 f \<and> PrevEventsV2 f \<noteq> None \<and> AuthEventsV2 f \<noteq> None)) \<and>
   (populateFieldsFromJSON X e0 b = Inr e1 \<or> NewEventFromTrustedJSON X b r ver = Inr e1 \<longrightarrow>
      ((\<exists>f. evFields e1 = FormatV1 f \<and> PrevEventsV1 f \<noteq> None \<and> AuthEventsV1 f \<noteq> None) \<or>
       (\<exists>f. evFields e1 = FormatV2 f \<and> PrevEventsV2 f \<noteq> None \<and> AuthEventsV2 f \<noteq> None)) \<and>
      CheckFields X e1 \<noteq> Some NilSlices \<and>
      CheckFields X (e1\<lparr>eventJSON := j\<rparr>) \<noteq> Some NilSlices)"
proof -
  have guard: "(evFields e = FormatV1 f1 \<and> (PrevEventsV1 f1 = None \<or> AuthEventsV1 f1 = None)
      \<longrightarrow> CheckFields X e = Some NilSlices) \<and>
   (evFields e = FormatV2 f2 \<and> (PrevEventsV2 f2 = None \<or> AuthEventsV2 f2 = None)
      \<longrightarrow> CheckFields X e = Some NilSlices) \<and>
   (CheckFields X e = None \<longrightarrow>
      (\<exists>f. evFields e = FormatV1 f \<and> PrevEventsV1 f \<noteq> None \<and> AuthEventsV1 f \<noteq> None) \<or>
      (\<exists>f. evFields e = FormatV2 f \<and> PrevEventsV2 f \<noteq> None \<and> AuthEventsV2 f \<noteq> None))"
    by (auto simp: CheckFields_def split: fields.splits if_splits)
  have parsed: "((\<exists>f. evFields e1 = FormatV1 f \<and> PrevEventsV1 f \<noteq> None \<and> AuthEventsV1 f \<noteq> None) \<or>
       (\<exists>f. evFields e1 = FormatV2 f \<and> PrevEventsV2 f \<noteq> None \<and> AuthEventsV2 f \<noteq> None)) \<and>
      CheckFields X e1 \<noteq> Some NilSlices \<and>
      CheckFields X (e1\<lparr>eventJSON := j\<rparr>) \<noteq> Some NilSlices"
    if p: "populateFieldsFromJSON X e' b = Inr e1" for e'
  proof -
    have "CheckFields X (e1\<lparr>eventJSON := eventJSON e1\<rparr>) \<noteq> Some NilSlices"
      using p by (rule populateFieldsFromJSON_not_nil)
    then have "CheckFields X e1 \<noteq> Some NilSlices"
      by simp
    with populateFieldsFromJSON_slices [OF p] populateFieldsFromJSON_not_nil [OF p, of j]
    show ?thesis
      by simp
  qed
  have "populateFieldsFromJSON X e0 b = Inr e1 \<or> NewEventFromTrustedJSON X b r ver = Inr e1 \<Longrightarrow>
      \<exists>e'. populateFieldsFromJSON X e' b = Inr e1"
    unfolding NewEventFromTrustedJSON_def by blast
  with parsed guard show ?thesis
    by blast
qed

text \<open>The claim as the specification has it does not hold: the room-version-1 event
  \<open>absentRefsJSON\<close> has no \<open>prev_events\<close> and \<open>null\<close> for its \<open>auth_events\<close>, and yet it is
  ingested, from a trusted as from an untrusted source, with these very bytes, and the
  validator accepts the result.\<close>

theorem CheckFields_nil_slices_counterexample:
  "NewEventFromTrustedJSON sample absentRefsJSON False ''1'' = Inr (absentRefsEvent False) \<and>
   NewEventFromUntrustedJSON sample absentRefsJSON ''1'' = Inr (absentRefsEvent True) \<and>
   CheckFields sample (absentRefsEvent False) = None \<and>
   CheckFields sample (absentRefsEvent True) = None \<and>
   eventJSON (absentRefsEvent True) = absentRefsJSON \<and>
   gjsonGetRaw sample absentRefsJSON ''prev_events'' = None \<and>
   gjsonGetRaw sample absentRefsJSON ''auth_events'' = Some JNull"
proof -
  have t: "NewEventFromTrustedJSON sample absentRefsJSON False ''1'' = Inr (absentRefsEvent False)"
    by code_simp
  have p: "parseUntrustedJSON sample absentRefsJSON ''1'' =
      Inr ((absentRefsEvent False)\<lparr>eventJSON := NotJSON\<rparr>, absentRefsJSON)"
    by code_simp
  have h: "checkEventContentHash sample absentRefsJSON = Some SyntaxError"
    by code_simp
  have d: "RedactEvent absentRefsJSON = Inr (Text (JObj
     [(''event_id'', JStr ''$e1:example.org''), (''sender'', JStr ''@alice:example.org''),
      (''room_id'', JStr ''!room:example.org''), (''content'', JObj []),
      (''type'', JStr ''m.room.message''), (''auth_events'', JNull),
      (''origin'', JStr ''example.org'')]))"
    by code_simp
  have n: "CanonicalJSONAssumeValid (Text (JObj
     [(''event_id'', JStr ''$e1:example.org''), (''sender'', JStr ''@alice:example.org''),
      (''room_id'', JStr ''!room:example.org''), (''content'', JObj []),
      (''type'', JStr ''m.room.message''), (''auth_events'', JNull),
      (''origin'', JStr ''example.org'')])) = absentRefsJSON"
    by code_simp
  have c: "CheckFields sample (absentRefsEvent r) = None" for r
    by (simp add: CheckFields_def absentRefsEvent_def messageFields_def checkEventFields_def
        checkDomains_def checkID_def external_def sample_def sampleDomainFromID_def
        sampleLen_def maxEventLength_def maxIDLength_def RoomVersion_EventIDFormat_def
        roomVersionMeta_def MRoomMember_def absentRefsJSON_def)
  have j: "eventJSON (absentRefsEvent True) = absentRefsJSON \<and>
      gjsonGetRaw sample absentRefsJSON ''prev_events'' = None \<and>
      gjsonGetRaw sample absentRefsJSON ''auth_events'' = Some JNull"
    by (simp add: absentRefsEvent_def absentRefsJSON_def sample_def sampleGet_def)
  have u: "NewEventFromUntrustedJSON sample absentRefsJSON ''1'' = Inr (absentRefsEvent True)"
    using c [of True]
    by (simp add: NewEventFromUntrustedJSON_def p h d n finishEvent_def absentRefsEvent_def)
  from t u c j show ?thesis
    by simp
qed

theorem CheckFields_nil_slices_witness:
  "CheckFields sample nilPrevV1 = Some NilSlices \<and>
   CheckFields sample nilAuthV2 = Some NilSlices \<and>
   CheckFields sample (crossDomainV1 ''m.room.member'') = None \<and>
   (\<exists>f. evFields (crossDomainV1 ''m.room.member'') = FormatV1 f \<and> PrevEventsV1 f \<noteq> None
      \<and> AuthEventsV1 f \<noteq> None) \<and>
   NewEventFromTrustedJSON sample absentRefsJSON False ''1'' = Inr (absentRefsEvent False) \<and>
   CheckFields sample (absentRefsEvent False) \<noteq> Some NilSlices \<and>
   CheckFields sample ((absentRefsEvent False)\<lparr>eventJSON := NotJSON\<rparr>) \<noteq> Some NilSlices"
proof -
  have ok: "CheckFields sample (crossDomainV1 ''m.room.member'') = None"
    by (simp add: CheckFields_def crossDomainV1_def crossDomainFields_def checkEventFields_def
        checkDomains_def checkID_def external_def sample_def sampleDomainFromID_def
        sampleLen_def maxEventLength_def maxIDLength_def RoomVersion_EventIDFormat_def
        roomVersionMeta_def MRoomMember_def)
  have 1: "CheckFields sample nilPrevV1 = Some NilSlices"
    using CheckFields_nil_slices [where e = nilPrevV1 and X = sample
        and ?f1.0 = "case evFields nilPrevV1 of FormatV1 f \<Rightarrow> f"]
    by (simp add: nilPrevV1_def)
  have 2: "CheckFields sample nilAuthV2 = Some NilSlices"
    using CheckFields_nil_slices [where e = nilAuthV2 and X = sample
        and ?f2.0 = "case evFields nilAuthV2 of FormatV2 f \<Rightarrow> f"]
    by (simp add: nilAuthV2_def)
  have 3: "\<exists>f. evFields (crossDomainV1 ''m.room.member'') = FormatV1 f \<and> PrevEventsV1 f \<noteq> None
      \<and> AuthEventsV1 f \<noteq> None"
    using CheckFields_nil_slices [where e = "crossDomainV1 ''m.room.member''" and X = sample] ok
    by (simp add: crossDomainV1_def)
  have t: "NewEventFromTrustedJSON sample absentRefsJSON False ''1'' = Inr (absentRefsEvent False)"
    by code_simp
  have 4: "CheckFields sample (absentRefsEvent False) \<noteq> Some NilSlices \<and>
      CheckFields sample ((absentRefsEvent False)\<lparr>eventJSON := NotJSON\<rparr>) \<noteq> Some NilSlices"
    using CheckFields_nil_slices [where X = sample and b = absentRefsJSON and r = False
        and ver = "''1''" and ?e1.0 = "absentRefsEvent False" and j = NotJSON] t
    by simp
  from 1 2 ok 3 t 4 show ?thesis
    by simp
qed

lemma checkID_domain: "checkID X i k c = Inr d \<Longrightarrow> external (domainFromID X i) = Inr d"
  by (auto simp: checkID_def split: sum.splits list.splits if_splits)

lemma checkID_not_mismatch: "checkID X i k c \<noteq> Inl (SenderDomainMismatch a b)"
  by (auto simp: checkID_def external_def split: sum.splits list.splits)

lemma checkDomains_mismatch:
  assumes "checkDomains X e fs sd = Some (SenderDomainMismatch a b)"
  shows "RoomVersion_EventIDFormat (roomVersion e) = Inr EventIDFormatV1
    \<and> (\<exists>f. evFields e = FormatV1 f) \<and> Type fs \<noteq> MRoomMember \<and> a = sd \<and> b = Origin fs \<and> a \<noteq> b"
proof -
  from assms have v1: "RoomVersion_EventIDFormat (roomVersion e) = Inr EventIDFormatV1"
    by (auto simp: checkDomains_def split: sum.splits if_splits)
  from assms v1 obtain f where f: "evFields e = FormatV1 f"
    by (auto simp: checkDomains_def split: fields.splits)
  from assms v1 f checkID_not_mismatch [of X "EventID (eventFieldsV1 f)" "''event''" "CHR ''$''" a b]
  have "Type fs \<noteq> MRoomMember \<and> a = sd \<and> b = Origin fs \<and> a \<noteq> b"
    by (auto simp: checkDomains_def split: sum.splits if_splits)
  with v1 f show ?thesis
    by blast
qed

lemma checkDomains_rejects:
  assumes "RoomVersion_EventIDFormat (roomVersion e) = Inr EventIDFormatV1"
    and "evFields e = FormatV1 f" and "sd \<noteq> Origin fs" and "Type fs \<noteq> MRoomMember"
  shows "checkDomains X e fs sd \<noteq> None"
  using assms by (auto simp: checkDomains_def split: sum.splits)

lemma checkEventFields_mismatch:
  assumes "checkEventFields X e fs = Some (SenderDomainMismatch a b)"
  shows "\<exists>sd. checkID X (Sender fs) ''user'' (CHR ''@'') = Inr sd
    \<and> checkDomains X e fs sd = Some (SenderDomainMismatch a b)"
  using assms checkID_not_mismatch [of X "RoomID fs" "''room''" "CHR ''!''" a b]
    checkID_not_mismatch [of X "Sender fs" "''user''" "CHR ''@''" a b]
  by (auto simp: checkEventFields_def split: sum.splits if_splits)

lemma checkEventFields_accepts:
  assumes "checkEventFields X e fs = None"
  shows "\<exists>sd. checkID X (Sender fs) ''user'' (CHR ''@'') = Inr sd \<and> checkDomains X e fs sd = None"
  using assms by (auto simp: checkEventFields_def split: sum.splits if_splits)

text \<open>
  \<^bold>\<open>C7\<close>, as amended. Under the random event-ID format (room versions 1 and 2) the
  validator does not accept an event whose sender's domain differs from its origin, unless
  the event is a room-member event. It gives the sender-domain error only under that ID
  format and only to an event that is not a room-member event and whose sender's domain
  differs from its origin; so a room-member event never gets it, and under the hashed
  event-ID formats (room versions 3 and later) no event does.
\<close>

theorem CheckFields_sender_domain:
  "(RoomVersion_EventIDFormat (roomVersion e) = Inr EventIDFormatV1
      \<and> evFields e = FormatV1 f
      \<and> external (domainFromID X (Sender (eventFieldsV1 f))) = Inr senderDomain
      \<and> senderDomain \<noteq> Origin (eventFieldsV1 f)
      \<and> Type (eventFieldsV1 f) \<noteq> MRoomMember
    \<longrightarrow> CheckFields X e \<noteq> None) \<and>
   (CheckFields X e = Some (SenderDomainMismatch a b)
    \<longrightarrow> RoomVersion_EventIDFormat (roomVersion e) = Inr EventIDFormatV1
      \<and> (\<exists>g. evFields e = FormatV1 g
            \<and> Type (eventFieldsV1 g) \<noteq> MRoomMember
            \<and> external (domainFromID X (Sender (eventFieldsV1 g))) = Inr a
            \<and> b = Origin (eventFieldsV1 g) \<and> a \<noteq> b))"
proof (intro conjI impI)
  assume h: "RoomVersion_EventIDFormat (roomVersion e) = Inr EventIDFormatV1
      \<and> evFields e = FormatV1 f
      \<and> external (domainFromID X (Sender (eventFieldsV1 f))) = Inr senderDomain
      \<and> senderDomain \<noteq> Origin (eventFieldsV1 f)
      \<and> Type (eventFieldsV1 f) \<noteq> MRoomMember"
  show "CheckFields X e \<noteq> None"
  proof
    assume ok: "CheckFields X e = None"
    with h have "checkEventFields X e (eventFieldsV1 f) = None"
      by (auto simp: CheckFields_def split: if_splits)
    then obtain sd where sd: "checkID X (Sender (eventFieldsV1 f)) ''user'' (CHR ''@'') = Inr sd"
      and cd: "checkDomains X e (eventFieldsV1 f) sd = None"
      using checkEventFields_accepts by blast
    from checkID_domain [OF sd] h have "sd = senderDomain"
      by simp
    with h checkDomains_rejects [of e f sd "eventFieldsV1 f" X] cd show False
      by simp
  qed
next
  assume m: "CheckFields X e = Some (SenderDomainMismatch a b)"
  then obtain fs where fs: "checkEventFields X e fs = Some (SenderDomainMismatch a b)"
    and proj: "\<And>g. evFields e = FormatV1 g \<Longrightarrow> fs = eventFieldsV1 g"
    by (auto simp: CheckFields_def split: fields.splits if_splits)
  from checkEventFields_mismatch [OF fs] obtain sd
    where sd: "checkID X (Sender fs) ''user'' (CHR ''@'') = Inr sd"
      and cd: "checkDomains X e fs sd = Some (SenderDomainMismatch a b)"
    by blast
  from checkDomains_mismatch [OF cd] obtain g
    where v1: "RoomVersion_EventIDFormat (roomVersion e) = Inr EventIDFormatV1"
      and g: "evFields e = FormatV1 g"
      and rest: "Type fs \<noteq> MRoomMember" "a = sd" "b = Origin fs" "a \<noteq> b"
    by blast
  from proj [OF g] have eq: "fs = eventFieldsV1 g" .
  show "RoomVersion_EventIDFormat (roomVersion e) = Inr EventIDFormatV1"
    by (rule v1)
  show "\<exists>g. evFields e = FormatV1 g
            \<and> Type (eventFieldsV1 g) \<noteq> MRoomMember
            \<and> external (domainFromID X (Sender (eventFieldsV1 g))) = Inr a
            \<and> b = Origin (eventFieldsV1 g) \<and> a \<noteq> b"
    using g rest checkID_domain [OF sd] by (auto simp: eq)
qed

text \<open>The claim as it stands fails in room version 3: a message whose sender is on another
  server than its origin passes the validator.\<close>

theorem CheckFields_sender_domain_counterexample:
  "external (domainFromID sample (Sender (crossDomainFields ''m.room.message''))) = Inr ''elsewhere.org''
   \<and> Origin (crossDomainFields ''m.room.message'') = ''example.org''
   \<and> Type (crossDomainFields ''m.room.message'') \<noteq> MRoomMember
   \<and> evFields (crossDomainV3 ''m.room.message'') =
        FormatV2 \<lparr>eventFieldsV2 = crossDomainFields ''m.room.message'', PrevEventsV2 = Some [],
                   AuthEventsV2 = Some []\<rparr>
   \<and> CheckFields sample (crossDomainV3 ''m.room.message'') = None"
  by (simp add: CheckFields_def crossDomainV3_def crossDomainFields_def checkEventFields_def
      checkDomains_def checkID_def external_def sample_def sampleDomainFromID_def
      sampleLen_def maxEventLength_def maxIDLength_def RoomVersion_EventIDFormat_def
      roomVersionMeta_def MRoomMember_def)

theorem CheckFields_sender_domain_witness:
  "CheckFields sample (crossDomainV1 ''m.room.message'')
     = Some (SenderDomainMismatch ''elsewhere.org'' ''example.org'')
   \<and> CheckFields sample (crossDomainV1 ''m.room.message'') \<noteq> None
   \<and> RoomVersion_EventIDFormat (roomVersion (crossDomainV1 ''m.room.message'')) = Inr EventIDFormatV1
   \<and> (\<exists>g. evFields (crossDomainV1 ''m.room.message'') = FormatV1 g
         \<and> Type (eventFieldsV1 g) \<noteq> MRoomMember
         \<and> external (domainFromID sample (Sender (eventFieldsV1 g))) = Inr ''elsewhere.org''
         \<and> ''example.org'' = Origin (eventFieldsV1 g) \<and> ''elsewhere.org'' \<noteq> ''example.org'')"
proof -
  let ?e = "crossDomainV1 ''m.room.message''"
  let ?f = "\<lparr>eventFieldsV1 = crossDomainFields ''m.room.message'', PrevEventsV1 = Some [],
             AuthEventsV1 = Some []\<rparr>"
  have m: "CheckFields sample ?e = Some (SenderDomainMismatch ''elsewhere.org'' ''example.org'')"
    by (simp add: CheckFields_def crossDomainV1_def crossDomainFields_def checkEventFields_def
        checkDomains_def checkID_def external_def sample_def sampleDomainFromID_def
        sampleLen_def maxEventLength_def maxIDLength_def RoomVersion_EventIDFormat_def
        roomVersionMeta_def MRoomMember_def)
  have h: "RoomVersion_EventIDFormat (roomVersion ?e) = Inr EventIDFormatV1
      \<and> evFields ?e = FormatV1 ?f
      \<and> external (domainFromID sample (Sender (eventFieldsV1 ?f))) = Inr ''elsewhere.org''
      \<and> ''elsewhere.org'' \<noteq> Origin (eventFieldsV1 ?f)
      \<and> Type (eventFieldsV1 ?f) \<noteq> MRoomMember"
    by (simp add: crossDomainV1_def crossDomainFields_def external_def sample_def
        sampleDomainFromID_def RoomVersion_EventIDFormat_def roomVersionMeta_def MRoomMember_def)
  note t = CheckFields_sender_domain [where e = ?e and X = sample and f = ?f
      and senderDomain = "''elsewhere.org''" and a = "''elsewhere.org''" and b = "''example.org''"]
  from t h have 1: "CheckFields sample ?e \<noteq> None"
    by blast
  from t m have 2: "RoomVersion_EventIDFormat (roomVersion ?e) = Inr EventIDFormatV1
      \<and> (\<exists>g. evFields ?e = FormatV1 g
         \<and> Type (eventFieldsV1 g) \<noteq> MRoomMember
         \<and> external (domainFromID sample (Sender (eventFieldsV1 g))) = Inr ''elsewhere.org''
         \<and> ''example.org'' = Origin (eventFieldsV1 g) \<and> ''elsewhere.org'' \<noteq> ''example.org'')"
    by blast
  from m 1 2 show ?thesis
    by blast
qed

section \<open>Derived events\<close>

lemma Redact_drops_roomVersion:
  "\<not> redacted e \<Longrightarrow> snd (Redact e) = Inr e1 \<Longrightarrow> roomVersion e1 = []"
  by (auto simp: Redact_def zeroEvent_def split: sum.splits)

lemma Sign_drops_roomVersion:
  "snd (Sign X e signingName keyID privateKey) = Inr e1 \<Longrightarrow> roomVersion e1 = []"
  by (auto simp: Sign_def zeroEvent_def split: sum.splits)

text \<open>
  \<^bold>\<open>C3.\<close> The code does not do what the claim says. \<open>Redact\<close>, on an event that is not
  redacted yet, and \<open>Sign\<close> build their result from a struct literal that leaves
  \<open>roomVersion\<close> out: the derived event has the empty room version, whatever the
  parent's. Here the parent is of room version 1 and passes the validator; its signed copy
  has the empty room version, and the validator panics on it.
\<close>

theorem derived_events_drop_roomVersion:
  "roomVersion powerLevels = ''1''
   \<and> snd (Redact powerLevels) = Inr powerLevelsRedactedCopy
   \<and> roomVersion powerLevelsRedactedCopy = []
   \<and> roomVersion (crossDomainV1 ''m.room.member'') = ''1''
   \<and> CheckFields sample (crossDomainV1 ''m.room.member'') = None
   \<and> snd (Sign sample (crossDomainV1 ''m.room.member'') ''example.org'' ''ed25519:1'' ''secret'')
       = Inr memberSigned
   \<and> roomVersion memberSigned = []
   \<and> CheckFields sample memberSigned = Some (Panic ''unsupported room version'')"
proof -
  have 1: "snd (Redact powerLevels) = Inr powerLevelsRedactedCopy"
    by code_simp
  have 2: "CheckFields sample (crossDomainV1 ''m.room.member'') = None"
    by (simp add: CheckFields_def crossDomainV1_def crossDomainFields_def checkEventFields_def
        checkDomains_def checkID_def external_def sample_def sampleDomainFromID_def
        sampleLen_def maxEventLength_def maxIDLength_def RoomVersion_EventIDFormat_def
        roomVersionMeta_def MRoomMember_def)
  have 3: "snd (Sign sample (crossDomainV1 ''m.room.member'') ''example.org'' ''ed25519:1'' ''secret'')
       = Inr memberSigned"
    by code_simp
  have 4: "CheckFields sample memberSigned = Some (Panic ''unsupported room version'')"
    by (simp add: CheckFields_def memberSigned_def crossDomainFields_def checkEventFields_def
        checkDomains_def checkID_def external_def sample_def sampleDomainFromID_def
        sampleLen_def maxEventLength_def maxIDLength_def RoomVersion_EventIDFormat_def
        roomVersionMeta_def MRoomMember_def)
  from 1 2 3 4 show ?thesis
    by (simp add: powerLevels_def powerLevelsRedactedCopy_def crossDomainV1_def memberSigned_def)
qed

lemma updateUnsignedFields_frame:
  "updateUnsignedFields e u = Inr e1 \<Longrightarrow>
     eventJSON e1 = eventJSON e \<and> redacted e1 = redacted e \<and> roomVersion e1 = roomVersion e"
  by (auto simp: updateUnsignedFields_def split: fields.splits)

lemma SetUnsigned_receiver:
  "eventJSON (fst (SetUnsigned e u)) = eventJSON e
   \<and> redacted (fst (SetUnsigned e u)) = redacted e
   \<and> roomVersion (fst (SetUnsigned e u)) = roomVersion e"
  by (auto simp: SetUnsigned_def dest: updateUnsignedFields_frame split: sum.splits)

lemma SetUnsigned_result:
  assumes "snd (SetUnsigned e u) = Inr e1"
  shows "\<exists>m j. unmarshalMap (eventJSON e) = Inr (Some m) \<and> u = Inr j
     \<and> CanonicalJSON (marshalMap (Some (AList.update ''unsigned'' j m))) = Inr (eventJSON e1)
     \<and> redacted e1 = redacted e \<and> roomVersion e1 = roomVersion e"
  using assms
  by (auto simp: SetUnsigned_def assignMap_def dest: updateUnsignedFields_frame
      split: sum.splits option.splits)

lemma SetUnsignedField_success:
  assumes "SetUnsignedField X e path v = (e', None)"
  shows "\<exists>j. external (sjsonSetBytes X (eventJSON e) (''unsigned.'' @ path) v) = Inr j
     \<and> eventJSON e' = CanonicalJSONAssumeValid j
     \<and> redacted e' = redacted e \<and> roomVersion e' = roomVersion e"
  using assms
  by (auto simp: SetUnsignedField_def Let_def dest: updateUnsignedFields_frame split: sum.splits)

lemma SetUnsignedField_failure:
  "SetUnsignedField X e path v = (e', Some err) \<Longrightarrow> e' = e"
  by (auto simp: SetUnsignedField_def Let_def split: sum.splits)

text \<open>
  \<^bold>\<open>C2\<close>, as amended. \<open>Redact\<close> and \<open>Sign\<close> return an \<open>Event\<close> value and leave the receiver
  as it was. \<open>SetUnsigned\<close> leaves the receiver's bytes, redacted flag and room version as
  they were, and the event it returns carries the canonical bytes with \<open>unsigned\<close> set,
  the receiver's redacted flag and its room version. \<open>SetUnsignedField\<close> returns no event
  but an error only: when it succeeds, the receiver itself holds the new canonical bytes,
  with its redacted flag and room version kept; when it fails, the receiver is as it was.
\<close>

theorem mutators_and_receiver:
  "fst (Redact e) = e
   \<and> fst (Sign X e signingName keyID privateKey) = e
   \<and> eventJSON (fst (SetUnsigned e u)) = eventJSON e
   \<and> redacted (fst (SetUnsigned e u)) = redacted e
   \<and> roomVersion (fst (SetUnsigned e u)) = roomVersion e
   \<and> (snd (SetUnsigned e u) = Inr e1 \<longrightarrow>
        (\<exists>m j. unmarshalMap (eventJSON e) = Inr (Some m) \<and> u = Inr j
           \<and> CanonicalJSON (marshalMap (Some (AList.update ''unsigned'' j m))) = Inr (eventJSON e1)
           \<and> redacted e1 = redacted e \<and> roomVersion e1 = roomVersion e))
   \<and> (SetUnsignedField X e path v = (e2, None) \<longrightarrow>
        (\<exists>j. external (sjsonSetBytes X (eventJSON e) (''unsigned.'' @ path) v) = Inr j
           \<and> eventJSON e2 = CanonicalJSONAssumeValid j
           \<and> redacted e2 = redacted e \<and> roomVersion e2 = roomVersion e))
   \<and> (SetUnsignedField X e path v = (e3, Some err) \<longrightarrow> e3 = e)"
proof -
  have 1: "fst (Redact e) = e"
    by (simp add: Redact_def split: sum.splits)
  have 2: "fst (Sign X e signingName keyID privateKey) = e"
    by (simp add: Sign_def split: sum.splits)
  show ?thesis
    using 1 2 SetUnsigned_receiver [of e u] SetUnsigned_result [of e u e1]
      SetUnsignedField_success [of X e path v e2] SetUnsignedField_failure [of X e path v e3 err]
    by blast
qed

text \<open>The claim as it stands fails on \<open>SetUnsignedField\<close>: after the call the receiver's
  bytes have changed.\<close>

theorem mutators_and_receiver_counterexample:
  "eventJSON (crossDomainV1 ''m.room.member'') = Text (JObj [])
   \<and> SetUnsignedField sample (crossDomainV1 ''m.room.member'') ''age'' (JNum ''1'')
       = (memberWithAge, None)
   \<and> eventJSON memberWithAge = Text (JObj [(''unsigned'', JObj [(''age'', JNum ''1'')])])"
  by (simp add: SetUnsignedField_def crossDomainV1_def memberWithAge_def sample_def sampleSet_def
      sampleGet_def external_def CanonicalJSONAssumeValid_def updateUnsignedFields_def
      fixNilSlicesV1_def Let_def)

theorem mutators_and_receiver_witness:
  "snd (SetUnsigned (crossDomainV1 ''m.room.member'') (Inr (JObj [(''age'', JNum ''1'')])))
     = Inr memberWithAge
   \<and> (\<exists>m j. unmarshalMap (eventJSON (crossDomainV1 ''m.room.member'')) = Inr (Some m)
         \<and> Inr (JObj [(''age'', JNum ''1'')]) = (Inr j :: error + json)
         \<and> CanonicalJSON (marshalMap (Some (AList.update ''unsigned'' j m)))
             = Inr (eventJSON memberWithAge)
         \<and> redacted memberWithAge = redacted (crossDomainV1 ''m.room.member'')
         \<and> roomVersion memberWithAge = roomVersion (crossDomainV1 ''m.room.member''))
   \<and> SetUnsignedField sample (crossDomainV1 ''m.room.member'') ''age'' (JNum ''1'')
       = (memberWithAge, None)
   \<and> (\<exists>j. external (sjsonSetBytes sample (eventJSON (crossDomainV1 ''m.room.member''))
              (''unsigned.'' @ ''age'') (JNum ''1'')) = Inr j
         \<and> eventJSON memberWithAge = CanonicalJSONAssumeValid j)
   \<and> SetUnsignedField sample notJSONEvent ''age'' (JNum ''1'')
       = (notJSONEvent, Some (External ''not an object''))"
proof -
  let ?e = "crossDomainV1 ''m.room.member''"
  let ?u = "Inr (JObj [(''age'', JNum ''1'')]) :: error + json"
  have a: "snd (SetUnsigned ?e ?u) = Inr memberWithAge"
    by (simp add: SetUnsigned_def crossDomainV1_def memberWithAge_def unmarshalMap_def
        assignMap_def marshalMap_def CanonicalJSON_def updateUnsignedFields_def
        fixNilSlicesV1_def Let_def)
  have b: "SetUnsignedField sample ?e ''age'' (JNum ''1'') = (memberWithAge, None)"
    by (simp add: SetUnsignedField_def crossDomainV1_def memberWithAge_def sample_def
        sampleSet_def sampleGet_def external_def CanonicalJSONAssumeValid_def
        updateUnsignedFields_def fixNilSlicesV1_def Let_def)
  have c: "SetUnsignedField sample notJSONEvent ''age'' (JNum ''1'')
       = (notJSONEvent, Some (External ''not an object''))"
    by (simp add: SetUnsignedField_def notJSONEvent_def sample_def sampleSet_def external_def)
  note t1 = mutators_and_receiver [where e = ?e and u = ?u and ?e1.0 = memberWithAge
      and X = sample and path = "''age''" and v = "JNum ''1''" and ?e2.0 = memberWithAge]
  note t2 = mutators_and_receiver [where e = notJSONEvent and X = sample and path = "''age''"
      and v = "JNum ''1''" and ?e3.0 = notJSONEvent and err = "External ''not an object''"]
  from t1 a have r1: "\<exists>m j. unmarshalMap (eventJSON ?e) = Inr (Some m)
         \<and> ?u = (Inr j :: error + json)
         \<and> CanonicalJSON (marshalMap (Some (AList.update ''unsigned'' j m)))
             = Inr (eventJSON memberWithAge)
         \<and> redacted memberWithAge = redacted ?e
         \<and> roomVersion memberWithAge = roomVersion ?e"
    by blast
  from t1 b have r2: "\<exists>j. external (sjsonSetBytes sample (eventJSON ?e)
              (''unsigned.'' @ ''age'') (JNum ''1'')) = Inr j
         \<and> eventJSON memberWithAge = CanonicalJSONAssumeValid j"
    by blast
  from t2 c have r3: "notJSONEvent = notJSONEvent"
    by blast
  from a r1 b r2 c show ?thesis
    by blast
qed

section \<open>Building events\<close>




text \<open>In a room version of the second event format, a \<open>Build\<close> that returns an event
  has marshalled the struct with the references put into that format.\<close>

lemma Build_marshals:
  assumes "Build X eb now origin0 keyID privateKey ver randomString = Inr result"
    and "RoomVersion_EventFormat ver = Inr EventFormatV2"
  shows "\<exists>eid j. marshalBuildEvent X (buildEvent EventFormatV2 eb) eid now origin0
      (ebStateKey eb \<noteq> None) = Inr j"
proof (cases "RoomVersion_EventIDFormat ver")
  case (Inl err)
  with assms show ?thesis
    by (simp add: Build_def)
next
  case (Inr idf)
  let ?eid = "if idf = EventIDFormatV1 then ''$'' @ randomString @ '':'' @ origin0 else []"
  show ?thesis
  proof (cases "marshalBuildEvent X (buildEvent EventFormatV2 eb) ?eid now origin0
      (ebStateKey eb \<noteq> None)")
    case (Inl err)
    with assms Inr show ?thesis
      by (simp add: Build_def Let_def)
  next
    case (Inr j)
    then show ?thesis
      by blast
  qed
qed



section \<open>The reference hash and the event ID\<close>

text \<open>The reference hash is the digest of the canonical form of the redacted event without
  its \<open>signatures\<close> and \<open>unsigned\<close>; the event ID of the reference is the \<open>event_id\<close> that
  the redacted event declares.\<close>

lemma referenceOfEvent_Inr:
  assumes "referenceOfEvent X b = Inr reference"
  shows "\<exists>redactedJSON event hashable.
      RedactEvent b = Inr redactedJSON
    \<and> unmarshalMap redactedJSON = Inr event
    \<and> CanonicalJSON (marshalMap (deleteMap ''unsigned'' (deleteMap ''signatures'' event)))
        = Inr hashable
    \<and> EventSHA256 reference = Sum256 X hashable
    \<and> unmarshalString (lookupMap (deleteMap ''unsigned'' (deleteMap ''signatures'' event))
          ''event_id'') = Inr (refEventID reference)"
  using assms
  by (auto simp: referenceOfEvent_def Let_def split: sum.splits)

lemma generateEventID_compact:
  assumes "roomVersion e = ''3'' \<or> roomVersion e = ''4'' \<or> roomVersion e = ''5''"
    and "generateEventID X e = Inr eventID"
  shows "\<exists>reference. referenceOfEvent X (eventJSON e) = Inr reference
    \<and> eventID = refEventID reference"
  using assms
  by (auto simp: generateEventID_def split: sum.splits)

text \<open>
  \<^bold>\<open>C4.\<close> The code does not do what the claim says of the event ID. In room version 4,
  whose event IDs are to be the URL-safe base64 of the reference hash, the event ID that
  parsing produces is the string the event itself declares under \<open>event_id\<close>: no hash
  enters it. The reference hash of the same event is computed as the claim says.
\<close>

theorem compact_event_ID_is_declared:
  "RoomVersion_EventIDFormat ''4'' = Inr EventIDFormatV3
   \<and> referenceOfEvent sample forgedJSON
       = Inr \<lparr>refEventID = ''$forged'',
              EventSHA256 = Sum256 sample (Text (JObj
                [(''auth_events'', JArr []), (''content'', JObj []),
                 (''event_id'', JStr ''$forged''), (''origin'', JStr ''example.org''),
                 (''prev_events'', JArr []), (''room_id'', JStr ''!room:example.org''),
                 (''sender'', JStr ''@mallory:example.org''),
                 (''type'', JStr ''m.room.message'')]))\<rparr>
   \<and> generateEventID sample (zeroEvent\<lparr>roomVersion := ''4'', eventJSON := forgedJSON\<rparr>)
       = Inr ''$forged''
   \<and> (\<exists>e f. NewEventFromTrustedJSON sample forgedJSON False ''4'' = Inr e
         \<and> evFields e = FormatV2 f \<and> EventID (eventFieldsV2 f) = ''$forged'')"
proof -
  have 1: "RoomVersion_EventIDFormat ''4'' = Inr EventIDFormatV3"
    by (simp add: RoomVersion_EventIDFormat_def roomVersionMeta_def)
  have 2: "referenceOfEvent sample forgedJSON
       = Inr \<lparr>refEventID = ''$forged'',
              EventSHA256 = Sum256 sample (Text (JObj
                [(''auth_events'', JArr []), (''content'', JObj []),
                 (''event_id'', JStr ''$forged''), (''origin'', JStr ''example.org''),
                 (''prev_events'', JArr []), (''room_id'', JStr ''!room:example.org''),
                 (''sender'', JStr ''@mallory:example.org''),
                 (''type'', JStr ''m.room.message'')]))\<rparr>"
    by code_simp
  have 3: "generateEventID sample (zeroEvent\<lparr>roomVersion := ''4'', eventJSON := forgedJSON\<rparr>)
       = Inr ''$forged''"
    using 2 by (simp add: generateEventID_def zeroEvent_def)
  have 4: "\<exists>e f. NewEventFromTrustedJSON sample forgedJSON False ''4'' = Inr e
         \<and> evFields e = FormatV2 f \<and> EventID (eventFieldsV2 f) = ''$forged''"
    using 2
    by (simp add: NewEventFromTrustedJSON_def populateFieldsFromJSON_def generateEventID_def
        zeroEvent_def RoomVersion_EventFormat_def roomVersionMeta_def external_def sample_def
        sampleDelete_def sampleUnmarshalV2_def forgedJSON_def fixNilSlicesV2_def Let_def)
  from 1 2 3 4 show ?thesis
    by blast
qed

section \<open>Ingestion\<close>

text \<open>No step of ingestion other than the content-hash check gives the content-hash
  error.\<close>

lemma decodeMember_error:
  "snd st = None \<or> (\<exists>s. snd st = Some (UnmarshalTypeError s)) \<Longrightarrow>
   snd (decodeMember st m) = None \<or> (\<exists>s. snd (decodeMember st m) = Some (UnmarshalTypeError s))"
  by (auto simp: decodeMember_def saveError_def split: option.splits json.splits)

lemma decodeMembers_error:
  "snd st = None \<or> (\<exists>s. snd st = Some (UnmarshalTypeError s)) \<Longrightarrow>
   snd (foldl decodeMember st ms) = None
     \<or> (\<exists>s. snd (foldl decodeMember st ms) = Some (UnmarshalTypeError s))"
proof (induction ms arbitrary: st)
  case Nil
  then show ?case by simp
next
  case (Cons m ms)
  from decodeMember_error [OF Cons.prems] show ?case
    by (simp only: foldl_Cons) (rule Cons.IH)
qed

lemma RedactEvent_no_hash_error: "RedactEvent b \<noteq> Inl InvalidContentHash"
proof -
  have "unmarshalEventFields b \<noteq> Inl InvalidContentHash"
  proof (cases b)
    case NotJSON
    then show ?thesis by (simp add: unmarshalEventFields_def)
  next
    case (Text j)
    show ?thesis
    proof (cases j)
      case (JObj ms)
      from decodeMembers_error [of "(zeroRedactFields, None)" ms]
      show ?thesis
        by (auto simp: unmarshalEventFields_def Text JObj split: prod.splits option.splits)
    qed (simp_all add: unmarshalEventFields_def Text)
  qed
  then show ?thesis
    by (auto simp: RedactEvent_def split: sum.splits)
qed

lemma unmarshalMap_no_hash_error: "unmarshalMap b \<noteq> Inl InvalidContentHash"
  by (auto simp: unmarshalMap_def split: bytes.splits json.splits)

lemma CanonicalJSON_marshalMap: "\<exists>j. CanonicalJSON (marshalMap m) = Inr j"
  by (simp add: CanonicalJSON_def marshalMap_def split: option.splits)

lemma unmarshalString_no_hash_error: "unmarshalString raw \<noteq> Inl InvalidContentHash"
  by (auto simp: unmarshalString_def split: option.splits json.splits)

lemma referenceOfEvent_no_hash_error: "referenceOfEvent X b \<noteq> Inl InvalidContentHash"
proof (cases "RedactEvent b")
  case (Inl err)
  with RedactEvent_no_hash_error [of b] show ?thesis
    by (simp add: referenceOfEvent_def)
next
  case red: (Inr redactedJSON)
  show ?thesis
  proof (cases "unmarshalMap redactedJSON")
    case (Inl err)
    with red unmarshalMap_no_hash_error [of redactedJSON] show ?thesis
      by (simp add: referenceOfEvent_def)
  next
    case (Inr event)
    let ?event1 = "deleteMap ''unsigned'' (deleteMap ''signatures'' event)"
    obtain j where j: "CanonicalJSON (marshalMap ?event1) = Inr j"
      using CanonicalJSON_marshalMap by blast
    from red Inr j unmarshalString_no_hash_error [of "lookupMap ?event1 ''event_id''"]
    show ?thesis
      by (auto simp: referenceOfEvent_def Let_def split: sum.splits)
  qed
qed

lemma generateEventID_no_hash_error: "generateEventID X e \<noteq> Inl InvalidContentHash"
  using referenceOfEvent_no_hash_error [of X "eventJSON e"]
  by (auto simp: generateEventID_def split: sum.splits fields.splits)

lemma external_no_hash_error: "external r \<noteq> Inl InvalidContentHash"
  by (cases r) (simp_all add: external_def)

lemma RoomVersion_EventFormat_no_hash_error:
  "RoomVersion_EventFormat v \<noteq> Inl InvalidContentHash"
  by (simp add: RoomVersion_EventFormat_def split: option.splits)

lemma populateFieldsFromJSON_no_hash_error:
  "populateFieldsFromJSON X e b \<noteq> Inl InvalidContentHash"
proof (cases "RoomVersion_EventFormat (roomVersion e)")
  case (Inl err)
  with RoomVersion_EventFormat_no_hash_error [of "roomVersion e"] show ?thesis
    by (simp add: populateFieldsFromJSON_def)
next
  case fmt: (Inr eventFormat0)
  show ?thesis
  proof (cases eventFormat0)
    case EventFormatV1
    with fmt external_no_hash_error [of "unmarshalV1 X b"] show ?thesis
      by (auto simp: populateFieldsFromJSON_def split: sum.splits)
  next
    case EventFormatV2
    show ?thesis
    proof (cases "external (sjsonDeleteBytes X b ''event_id'')")
      case (Inl err)
      with fmt EventFormatV2 external_no_hash_error [of "sjsonDeleteBytes X b ''event_id''"]
      show ?thesis
        by (simp add: populateFieldsFromJSON_def)
    next
      case del: (Inr b1)
      show ?thesis
      proof (cases "external (unmarshalV2 X b1)")
        case (Inl err)
        with fmt EventFormatV2 del external_no_hash_error [of "unmarshalV2 X b1"]
        show ?thesis
          by (simp add: populateFieldsFromJSON_def)
      next
        case (Inr f)
        with fmt EventFormatV2 del generateEventID_no_hash_error [of X e]
        show ?thesis
          by (auto simp: populateFieldsFromJSON_def split: sum.splits)
      qed
    qed
  qed
qed

lemma deleteKeys_no_hash_error: "deleteKeys X ks b \<noteq> Inl InvalidContentHash"
  by (induction ks arbitrary: b) (auto simp: external_def split: sum.splits)

lemma parseUntrustedJSON_no_hash_error: "parseUntrustedJSON X b ver \<noteq> Inl InvalidContentHash"
proof (cases "RoomVersion_EventFormat ver")
  case (Inl err)
  with RoomVersion_EventFormat_no_hash_error [of ver] show ?thesis
    by (simp add: parseUntrustedJSON_def)
next
  case fmt: (Inr eventFormat0)
  let ?stripped = "if eventFormat0 = EventFormatV2
      then external (sjsonDeleteBytes X b ''event_id'') else Inr b"
  show ?thesis
  proof (cases ?stripped)
    case (Inl err)
    with fmt external_no_hash_error [of "sjsonDeleteBytes X b ''event_id''"] show ?thesis
      by (auto simp: parseUntrustedJSON_def split: if_splits)
  next
    case (Inr b1)
    with fmt populateFieldsFromJSON_no_hash_error [of X "zeroEvent\<lparr>roomVersion := ver\<rparr>" b1]
      deleteKeys_no_hash_error [of X "[''outlier'', ''destinations'', ''age_ts'']" b1]
    show ?thesis
      by (auto simp: parseUntrustedJSON_def simp del: deleteKeys.simps split: sum.splits)
  qed
qed

lemma checkID_no_hash_error: "checkID X i k c \<noteq> Inl InvalidContentHash"
  by (auto simp: checkID_def external_def split: sum.splits list.splits)

lemma checkDomains_no_hash_error: "checkDomains X e fs sd \<noteq> Some InvalidContentHash"
  using checkID_no_hash_error [of X _ "''event''" "CHR ''$''"]
  by (auto simp: checkDomains_def split: sum.splits fields.splits)

lemma checkEventFields_no_hash_error: "checkEventFields X e fs \<noteq> Some InvalidContentHash"
  using checkID_no_hash_error [of X "RoomID fs" "''room''" "CHR ''!''"]
    checkID_no_hash_error [of X "Sender fs" "''user''" "CHR ''@''"]
    checkDomains_no_hash_error [of X e fs]
  by (auto simp: checkEventFields_def split: sum.splits)

lemma CheckFields_no_hash_error: "CheckFields X e \<noteq> Some InvalidContentHash"
  using checkEventFields_no_hash_error [of X e]
  by (auto simp: CheckFields_def split: fields.splits)

lemma finishEvent_no_hash_error: "finishEvent X e j \<noteq> Inl InvalidContentHash"
  using CheckFields_no_hash_error [of X "e\<lparr>eventJSON := j\<rparr>"]
  by (auto simp: finishEvent_def Let_def split: option.splits)

lemma NewEventFromUntrustedJSON_no_hash_error:
  "NewEventFromUntrustedJSON X b ver \<noteq> Inl InvalidContentHash"
proof (cases "parseUntrustedJSON X b ver")
  case (Inl err)
  with parseUntrustedJSON_no_hash_error [of X b ver] show ?thesis
    by (simp add: NewEventFromUntrustedJSON_def)
next
  case (Inr p)
  obtain result1 j where p: "p = (result1, j)"
    by (cases p)
  show ?thesis
  proof (cases "checkEventContentHash X j")
    case None
    with Inr p finishEvent_no_hash_error [of X result1 j] show ?thesis
      by (simp add: NewEventFromUntrustedJSON_def)
  next
    case (Some hashError)
    with Inr p RedactEvent_no_hash_error [of j] finishEvent_no_hash_error [of X]
      populateFieldsFromJSON_no_hash_error [of X]
    show ?thesis
      by (auto simp: NewEventFromUntrustedJSON_def NewEventFromTrustedJSON_def Let_def
          split: sum.splits if_splits)
  qed
qed

lemma populateFieldsFromJSON_frame:
  "populateFieldsFromJSON X e b = Inr e1 \<Longrightarrow>
     redacted e1 = redacted e \<and> roomVersion e1 = roomVersion e \<and> eventJSON e1 = eventJSON e"
  by (auto simp: populateFieldsFromJSON_def split: sum.splits EventFormat.splits)

lemma finishEvent_Inr:
  "finishEvent X e j = Inr result \<Longrightarrow> result = e\<lparr>eventJSON := j\<rparr> \<and> CheckFields X result = None"
  by (auto simp: finishEvent_def Let_def split: option.splits)

lemma parseUntrustedJSON_roomVersion:
  "parseUntrustedJSON X b ver = Inr (parsed, j) \<Longrightarrow> roomVersion parsed = ver"
  by (auto simp: parseUntrustedJSON_def Let_def zeroEvent_def dest!: populateFieldsFromJSON_frame
      split: sum.splits if_splits)

lemma finishEvent_Inl:
  "finishEvent X e j = Inl err \<Longrightarrow> CheckFields X (e\<lparr>eventJSON := j\<rparr>) = Some err"
  by (auto simp: finishEvent_def Let_def split: option.splits)

lemma NewEventFromTrustedJSON_frame:
  "NewEventFromTrustedJSON X b r ver = Inr e \<Longrightarrow>
     redacted e = r \<and> roomVersion e = ver \<and> eventJSON e = b"
  by (auto simp: NewEventFromTrustedJSON_def zeroEvent_def dest!: populateFieldsFromJSON_frame)

text \<open>
  \<^bold>\<open>C6.\<close> Let ingestion have parsed the event and reached its canonical bytes, and let the
  content-hash check fail on them. Then \<open>NewEventFromUntrustedJSON\<close> does not return the
  content-hash error. The event it returns is marked redacted, has the room version asked
  for, has passed the field validator, holds as bytes the canonical encoding of the
  redaction of those canonical bytes, and has the projection that \<open>NewEventFromTrustedJSON\<close>
  parses from the redacted bytes if they differ from the bytes before redaction, and the
  projection already parsed if they do not. It returns an event unless the redaction, the
  reparse of the redacted bytes or the field validator on the redacted event fails, and
  then it returns that error.
\<close>

theorem NewEventFromUntrustedJSON_hash_mismatch:
  assumes "parseUntrustedJSON X b ver = Inr (parsed, canonicalJSON)"
    and "checkEventContentHash X canonicalJSON = Some hashError"
  shows "NewEventFromUntrustedJSON X b ver \<noteq> Inl InvalidContentHash
    \<and> (NewEventFromUntrustedJSON X b ver = Inr result \<longrightarrow>
          redacted result
        \<and> roomVersion result = ver
        \<and> CheckFields X result = None
        \<and> (\<exists>redactedJSON. RedactEvent canonicalJSON = Inr redactedJSON
              \<and> eventJSON result = CanonicalJSONAssumeValid redactedJSON)
        \<and> (eventJSON result \<noteq> canonicalJSON \<longrightarrow>
              (\<exists>reparsed. NewEventFromTrustedJSON X (eventJSON result) True ver = Inr reparsed
                 \<and> evFields result = evFields reparsed))
        \<and> (eventJSON result = canonicalJSON \<longrightarrow> evFields result = evFields parsed))
    \<and> (NewEventFromUntrustedJSON X b ver = Inl err \<longrightarrow>
          RedactEvent canonicalJSON = Inl err
        \<or> (\<exists>redactedJSON. RedactEvent canonicalJSON = Inr redactedJSON
              \<and> ((CanonicalJSONAssumeValid redactedJSON \<noteq> canonicalJSON
                    \<and> NewEventFromTrustedJSON X (CanonicalJSONAssumeValid redactedJSON) True ver
                        = Inl err)
                 \<or> (\<exists>e. redacted e \<and> eventJSON e = CanonicalJSONAssumeValid redactedJSON
                        \<and> (eventJSON e \<noteq> canonicalJSON \<longrightarrow>
                              NewEventFromTrustedJSON X (eventJSON e) True ver = Inr e)
                        \<and> (eventJSON e = canonicalJSON \<longrightarrow> evFields e = evFields parsed)
                        \<and> CheckFields X e = Some err))))"
proof (intro conjI impI)
  show "NewEventFromUntrustedJSON X b ver \<noteq> Inl InvalidContentHash"
    by (rule NewEventFromUntrustedJSON_no_hash_error)
next
  assume r: "NewEventFromUntrustedJSON X b ver = Inr result"
  from r assms obtain redactedJSON0 where red: "RedactEvent canonicalJSON = Inr redactedJSON0"
    by (auto simp: NewEventFromUntrustedJSON_def Let_def split: sum.splits)
  let ?redactedJSON = "CanonicalJSONAssumeValid redactedJSON0"
  from r assms red obtain result3 where
    r3: "(if ?redactedJSON \<noteq> canonicalJSON
          then NewEventFromTrustedJSON X ?redactedJSON True ver
          else Inr (parsed\<lparr>redacted := True\<rparr>)) = Inr result3"
    and fin: "finishEvent X result3 ?redactedJSON = Inr result"
    by (auto simp: NewEventFromUntrustedJSON_def Let_def split: sum.splits)
  from finishEvent_Inr [OF fin] have res: "result = result3\<lparr>eventJSON := ?redactedJSON\<rparr>"
    and ok: "CheckFields X result = None"
    by blast+
  have ej: "eventJSON result = ?redactedJSON"
    by (simp add: res)
  have ver: "roomVersion parsed = ver"
    by (rule parseUntrustedJSON_roomVersion [OF assms(1)])
  show "CheckFields X result = None"
    by (rule ok)
  show "\<exists>redactedJSON. RedactEvent canonicalJSON = Inr redactedJSON
      \<and> eventJSON result = CanonicalJSONAssumeValid redactedJSON"
    using red ej by blast
  show "redacted result"
  proof (cases "?redactedJSON \<noteq> canonicalJSON")
    case True
    with r3 have "NewEventFromTrustedJSON X ?redactedJSON True ver = Inr result3"
      by simp
    then have "redacted result3"
      by (auto dest!: NewEventFromTrustedJSON_frame)
    then show ?thesis by (simp add: res)
  next
    case False
    with r3 show ?thesis by (auto simp: res)
  qed
  show "roomVersion result = ver"
  proof (cases "?redactedJSON \<noteq> canonicalJSON")
    case True
    with r3 have "NewEventFromTrustedJSON X ?redactedJSON True ver = Inr result3"
      by simp
    then have "roomVersion result3 = ver"
      by (auto dest!: NewEventFromTrustedJSON_frame)
    then show ?thesis by (simp add: res)
  next
    case False
    with r3 ver show ?thesis by (auto simp: res)
  qed
  show "\<exists>reparsed. NewEventFromTrustedJSON X (eventJSON result) True ver = Inr reparsed
      \<and> evFields result = evFields reparsed"
    if "eventJSON result \<noteq> canonicalJSON"
    using that r3 by (auto simp: ej res)
  show "evFields result = evFields parsed" if "eventJSON result = canonicalJSON"
    using that r3 by (auto simp: ej res)
next
  assume l: "NewEventFromUntrustedJSON X b ver = Inl err"
  show "RedactEvent canonicalJSON = Inl err
        \<or> (\<exists>redactedJSON. RedactEvent canonicalJSON = Inr redactedJSON
              \<and> ((CanonicalJSONAssumeValid redactedJSON \<noteq> canonicalJSON
                    \<and> NewEventFromTrustedJSON X (CanonicalJSONAssumeValid redactedJSON) True ver
                        = Inl err)
                 \<or> (\<exists>e. redacted e \<and> eventJSON e = CanonicalJSONAssumeValid redactedJSON
                        \<and> (eventJSON e \<noteq> canonicalJSON \<longrightarrow>
                              NewEventFromTrustedJSON X (eventJSON e) True ver = Inr e)
                        \<and> (eventJSON e = canonicalJSON \<longrightarrow> evFields e = evFields parsed)
                        \<and> CheckFields X e = Some err)))"
  proof (cases "RedactEvent canonicalJSON")
    case (Inl err')
    with l assms show ?thesis
      by (simp add: NewEventFromUntrustedJSON_def)
  next
    case red: (Inr redactedJSON0)
    let ?redactedJSON = "CanonicalJSONAssumeValid redactedJSON0"
    show ?thesis
    proof (cases "?redactedJSON \<noteq> canonicalJSON")
      case differ: True
      show ?thesis
      proof (cases "NewEventFromTrustedJSON X ?redactedJSON True ver")
        case (Inl err')
        with l assms red differ have "err' = err"
          by (simp add: NewEventFromUntrustedJSON_def)
        with Inl red differ show ?thesis
          by simp
      next
        case (Inr result3)
        with l assms red differ have "finishEvent X result3 ?redactedJSON = Inl err"
          by (simp add: NewEventFromUntrustedJSON_def)
        then have c: "CheckFields X (result3\<lparr>eventJSON := ?redactedJSON\<rparr>) = Some err"
          by (rule finishEvent_Inl)
        from NewEventFromTrustedJSON_frame [OF Inr]
        have f: "redacted result3" "eventJSON result3 = ?redactedJSON"
          by simp_all
        from f(2) have same: "result3\<lparr>eventJSON := ?redactedJSON\<rparr> = result3"
          by (cases result3) simp
        have "redacted result3 \<and> eventJSON result3 = ?redactedJSON
            \<and> (eventJSON result3 \<noteq> canonicalJSON \<longrightarrow>
                  NewEventFromTrustedJSON X (eventJSON result3) True ver = Inr result3)
            \<and> (eventJSON result3 = canonicalJSON \<longrightarrow> evFields result3 = evFields parsed)
            \<and> CheckFields X result3 = Some err"
          using f c same Inr differ by simp
        with red show ?thesis
          by blast
      qed
    next
      case same: False
      let ?e = "parsed\<lparr>redacted := True, eventJSON := ?redactedJSON\<rparr>"
      from l assms red same have "finishEvent X (parsed\<lparr>redacted := True\<rparr>) ?redactedJSON = Inl err"
        by (simp add: NewEventFromUntrustedJSON_def)
      then have c: "CheckFields X ?e = Some err"
        by (auto dest!: finishEvent_Inl)
      have "redacted ?e \<and> eventJSON ?e = ?redactedJSON
            \<and> (eventJSON ?e \<noteq> canonicalJSON \<longrightarrow>
                  NewEventFromTrustedJSON X (eventJSON ?e) True ver = Inr ?e)
            \<and> (eventJSON ?e = canonicalJSON \<longrightarrow> evFields ?e = evFields parsed)
            \<and> CheckFields X ?e = Some err"
        using c same by simp
      with red show ?thesis
        by blast
    qed
  qed
qed

theorem NewEventFromUntrustedJSON_hash_mismatch_witness:
  "parseUntrustedJSON sample tamperedJSON ''1'' = Inr (tamperedParsed, tamperedCanonical)
   \<and> checkEventContentHash sample tamperedCanonical = Some InvalidContentHash
   \<and> NewEventFromUntrustedJSON sample tamperedJSON ''1'' = Inr tamperedResult
   \<and> redacted tamperedResult
   \<and> CheckFields sample tamperedResult = None
   \<and> (\<exists>redactedJSON. RedactEvent tamperedCanonical = Inr redactedJSON
         \<and> eventJSON tamperedResult = CanonicalJSONAssumeValid redactedJSON)
   \<and> eventJSON tamperedResult \<noteq> tamperedCanonical
   \<and> (\<exists>reparsed. NewEventFromTrustedJSON sample (eventJSON tamperedResult) True ''1'' = Inr reparsed
         \<and> evFields tamperedResult = evFields reparsed)
   \<and> parseUntrustedJSON sample tamperedNoRoom ''1'' = Inr (tamperedNoRoomParsed, tamperedNoRoom)
   \<and> checkEventContentHash sample tamperedNoRoom = Some InvalidContentHash
   \<and> NewEventFromUntrustedJSON sample tamperedNoRoom ''1'' = Inl (External ''invalid ID'')
   \<and> (\<exists>redactedJSON. RedactEvent tamperedNoRoom = Inr redactedJSON
         \<and> CanonicalJSONAssumeValid redactedJSON = tamperedNoRoom)
   \<and> (\<exists>e. redacted e \<and> eventJSON e = tamperedNoRoom \<and> evFields e = evFields tamperedNoRoomParsed
         \<and> CheckFields sample e = Some (External ''invalid ID''))"
proof -
  have p1: "parseUntrustedJSON sample tamperedJSON ''1'' = Inr (tamperedParsed, tamperedCanonical)"
    by code_simp
  have h1: "checkEventContentHash sample tamperedCanonical = Some InvalidContentHash"
    by code_simp
  have d1: "map_sum id CanonicalJSONAssumeValid (RedactEvent tamperedCanonical) = Inr tamperedRedacted"
    by code_simp
  have t1: "NewEventFromTrustedJSON sample tamperedRedacted True ''1'' = Inr tamperedResult"
    by code_simp
  have c1: "CheckFields sample tamperedResult = None"
    by (simp add: CheckFields_def tamperedResult_def tamperedRedacted_def messageFields_def
        checkEventFields_def checkDomains_def checkID_def external_def sample_def
        sampleDomainFromID_def sampleLen_def maxEventLength_def maxIDLength_def
        RoomVersion_EventIDFormat_def roomVersionMeta_def MRoomMember_def)
  have ne: "tamperedRedacted \<noteq> tamperedCanonical"
    by (simp add: tamperedRedacted_def tamperedCanonical_def)
  have ej: "tamperedResult\<lparr>eventJSON := tamperedRedacted\<rparr> = tamperedResult"
    by (simp add: tamperedResult_def)
  from d1 obtain rj1 where rj1: "RedactEvent tamperedCanonical = Inr rj1"
    "CanonicalJSONAssumeValid rj1 = tamperedRedacted"
    by (cases "RedactEvent tamperedCanonical") simp_all
  have u1: "NewEventFromUntrustedJSON sample tamperedJSON ''1'' = Inr tamperedResult"
    by (simp add: NewEventFromUntrustedJSON_def p1 h1 rj1 ne t1 finishEvent_def ej c1)
  have p2: "parseUntrustedJSON sample tamperedNoRoom ''1'' = Inr (tamperedNoRoomParsed, tamperedNoRoom)"
    by code_simp
  have h2: "checkEventContentHash sample tamperedNoRoom = Some InvalidContentHash"
    by code_simp
  have d2: "map_sum id CanonicalJSONAssumeValid (RedactEvent tamperedNoRoom) = Inr tamperedNoRoom"
    by code_simp
  from d2 obtain rj2 where rj2: "RedactEvent tamperedNoRoom = Inr rj2"
    "CanonicalJSONAssumeValid rj2 = tamperedNoRoom"
    by (cases "RedactEvent tamperedNoRoom") simp_all
  have c2: "CheckFields sample (tamperedNoRoomParsed\<lparr>redacted := True, eventJSON := tamperedNoRoom\<rparr>)
      = Some (External ''invalid ID'')"
    by (simp add: CheckFields_def tamperedNoRoomParsed_def tamperedNoRoom_def checkEventFields_def
        checkDomains_def checkID_def external_def sample_def sampleDomainFromID_def
        sampleLen_def maxEventLength_def maxIDLength_def RoomVersion_EventIDFormat_def
        roomVersionMeta_def MRoomMember_def)
  have u2: "NewEventFromUntrustedJSON sample tamperedNoRoom ''1'' = Inl (External ''invalid ID'')"
    by (simp add: NewEventFromUntrustedJSON_def p2 h2 rj2 finishEvent_def c2)
  have ej1: "eventJSON tamperedResult = tamperedRedacted"
    by (simp add: tamperedResult_def)
  note happy = NewEventFromUntrustedJSON_hash_mismatch [OF p1 h1, where result = tamperedResult]
  note unhappy = NewEventFromUntrustedJSON_hash_mismatch [OF p2 h2,
      where err = "External ''invalid ID''"]
  have 1: "redacted tamperedResult
      \<and> (\<exists>redactedJSON. RedactEvent tamperedCanonical = Inr redactedJSON
         \<and> eventJSON tamperedResult = CanonicalJSONAssumeValid redactedJSON)
      \<and> (\<exists>reparsed. NewEventFromTrustedJSON sample (eventJSON tamperedResult) True ''1'' = Inr reparsed
         \<and> evFields tamperedResult = evFields reparsed)"
    using happy u1 ne ej1 by simp
  have "\<exists>e. redacted e \<and> eventJSON e = CanonicalJSONAssumeValid rj2
        \<and> (eventJSON e \<noteq> tamperedNoRoom \<longrightarrow>
              NewEventFromTrustedJSON sample (eventJSON e) True ''1'' = Inr e)
        \<and> (eventJSON e = tamperedNoRoom \<longrightarrow> evFields e = evFields tamperedNoRoomParsed)
        \<and> CheckFields sample e = Some (External ''invalid ID'')"
    using unhappy u2 rj2 by simp
  then have 2: "\<exists>e. redacted e \<and> eventJSON e = tamperedNoRoom
      \<and> evFields e = evFields tamperedNoRoomParsed
      \<and> CheckFields sample e = Some (External ''invalid ID'')"
    using rj2(2) by auto
  from p1 h1 u1 c1 1 ne ej1 p2 h2 u2 rj2 2 show ?thesis
    by simp
qed

section \<open>The content hash\<close>

lemma deleteMap_absent: "lookupMap event k = None \<Longrightarrow> deleteMap k event = event"
proof (cases event)
  case None
  then show ?thesis by (simp add: deleteMap_def)
next
  case (Some al)
  assume "lookupMap event k = None"
  with Some have "k \<notin> fst ` set al"
    by (simp add: lookupMap_def map_of_eq_None_iff)
  with Some show ?thesis
    by (simp add: deleteMap_def)
qed

lemma lookupMap_assignMap:
  "assignMap k v m = Inr m1 \<Longrightarrow> lookupMap m1 l = (if l = k then Some v else lookupMap m l)"
  by (auto simp: assignMap_def lookupMap_def update_conv' split: option.splits)

lemma lookupMap_deleteMap:
  "lookupMap (deleteMap k m) l = (if l = k then None else lookupMap m l)"
  by (cases m) (simp_all add: deleteMap_def lookupMap_def delete_conv')

text \<open>What \<open>addContentHashesToEvent\<close> returns: the map of the event with the digest of its
  canonical form without \<open>unsigned\<close> and \<open>hashes\<close> stored under \<open>hashes\<close>.\<close>

lemma addContentHashesToEvent_Inr:
  assumes "addContentHashesToEvent X b = Inr out"
  shows "\<exists>event hashable withHashes. unmarshalMap b = Inr event
      \<and> CanonicalJSON (marshalMap (deleteMap ''hashes'' (deleteMap ''unsigned'' event))) = Inr hashable
      \<and> out = marshalMap withHashes
      \<and> lookupMap withHashes ''hashes''
          = Some (JObj [(''sha256'', marshalBase64 X (Sum256 X hashable))])
      \<and> (\<forall>k. k \<noteq> ''hashes'' \<longrightarrow> lookupMap withHashes k = lookupMap event k)"
proof -
  from assms obtain event where ev: "unmarshalMap b = Inr event"
    by (auto simp: addContentHashesToEvent_def split: sum.splits)
  let ?event1 = "deleteMap ''hashes'' (deleteMap ''unsigned'' event)"
  from assms ev obtain hashable where h: "CanonicalJSON (marshalMap ?event1) = Inr hashable"
    by (auto simp: addContentHashesToEvent_def Let_def split: sum.splits)
  let ?hashesJSON = "JObj [(''sha256'', marshalBase64 X (Sum256 X hashable))]"
  let ?event2 = "case lookupMap event ''unsigned'' of None \<Rightarrow> Inr ?event1
      | Some u \<Rightarrow> assignMap ''unsigned'' u ?event1"
  from assms ev h obtain event3 where e3: "?event2 = Inr event3"
    by (auto simp: addContentHashesToEvent_def Let_def split: sum.splits)
  from assms ev h e3 obtain event4 where e4: "assignMap ''hashes'' ?hashesJSON event3 = Inr event4"
    and out: "out = marshalMap event4"
    by (auto simp: addContentHashesToEvent_def Let_def split: sum.splits)
  have l3: "lookupMap event3 k = lookupMap event k" if "k \<noteq> ''hashes''" for k
  proof (cases "lookupMap event ''unsigned''")
    case None
    with e3 have "event3 = ?event1" by simp
    with None that show ?thesis
      by (simp add: lookupMap_deleteMap)
  next
    case (Some u)
    with e3 have "assignMap ''unsigned'' u ?event1 = Inr event3" by simp
    from lookupMap_assignMap [OF this, of k] Some that show ?thesis
      by (simp add: lookupMap_deleteMap)
  qed
  have "lookupMap event4 ''hashes'' = Some ?hashesJSON"
    using lookupMap_assignMap [OF e4, of "''hashes''"] by simp
  moreover have "\<forall>k. k \<noteq> ''hashes'' \<longrightarrow> lookupMap event4 k = lookupMap event k"
    using lookupMap_assignMap [OF e4] l3 by simp
  ultimately show ?thesis
    using ev h out by blast
qed

text \<open>
  \<^bold>\<open>C5.\<close> \<open>addContentHashesToEvent\<close> stores under \<open>hashes\<close> the object whose \<open>sha256\<close> is the
  SHA-256 of the canonical form of the event without its \<open>unsigned\<close> and \<open>hashes\<close>, and
  leaves every other member as it was. \<open>checkEventContentHash\<close> recomputes the hash over
  the event without its \<open>signatures\<close>, \<open>unsigned\<close> and \<open>hashes\<close>: once the event and its
  declared hash are decoded, it fails with the content-hash error exactly when the
  recomputed hash differs from the declared one, and succeeds exactly when they are equal.
  The two inputs are the same for an event without \<open>signatures\<close>. An event or a \<open>hashes\<close>
  member that cannot be decoded fails the check with the decoding error.
\<close>

theorem content_hash_inputs:
  "(addContentHashesToEvent X b = Inr out \<longrightarrow>
      (\<exists>event hashable withHashes. unmarshalMap b = Inr event
        \<and> CanonicalJSON (marshalMap (deleteMap ''hashes'' (deleteMap ''unsigned'' event)))
            = Inr hashable
        \<and> out = marshalMap withHashes
        \<and> lookupMap withHashes ''hashes''
            = Some (JObj [(''sha256'', marshalBase64 X (Sum256 X hashable))])
        \<and> (\<forall>k. k \<noteq> ''hashes'' \<longrightarrow> lookupMap withHashes k = lookupMap event k)))
   \<and> (unmarshalMap b = Inr event \<and> unmarshalHashes X (lookupMap event ''hashes'') = Inr declaredHash
        \<longrightarrow>
      (\<exists>hashable. CanonicalJSON (marshalMap (deleteMap ''hashes'' (deleteMap ''unsigned''
                      (deleteMap ''signatures'' event)))) = Inr hashable
        \<and> (checkEventContentHash X b = Some InvalidContentHash
              \<longleftrightarrow> Sum256 X hashable \<noteq> declaredHash)
        \<and> (checkEventContentHash X b = None \<longleftrightarrow> Sum256 X hashable = declaredHash)))
   \<and> (lookupMap event ''signatures'' = None \<longrightarrow> deleteMap ''signatures'' event = event)
   \<and> (unmarshalMap b = Inl err \<longrightarrow> checkEventContentHash X b = Some err)
   \<and> (unmarshalMap b = Inr event \<and> unmarshalHashes X (lookupMap event ''hashes'') = Inl err
        \<longrightarrow> checkEventContentHash X b = Some err)"
proof (intro conjI impI)
  assume "addContentHashesToEvent X b = Inr out"
  then show "\<exists>event hashable withHashes. unmarshalMap b = Inr event
        \<and> CanonicalJSON (marshalMap (deleteMap ''hashes'' (deleteMap ''unsigned'' event)))
            = Inr hashable
        \<and> out = marshalMap withHashes
        \<and> lookupMap withHashes ''hashes''
            = Some (JObj [(''sha256'', marshalBase64 X (Sum256 X hashable))])
        \<and> (\<forall>k. k \<noteq> ''hashes'' \<longrightarrow> lookupMap withHashes k = lookupMap event k)"
    by (rule addContentHashesToEvent_Inr)
next
  assume a: "unmarshalMap b = Inr event
      \<and> unmarshalHashes X (lookupMap event ''hashes'') = Inr declaredHash"
  let ?event1 = "deleteMap ''hashes'' (deleteMap ''unsigned'' (deleteMap ''signatures'' event))"
  obtain hashable where h: "CanonicalJSON (marshalMap ?event1) = Inr hashable"
    by (cases ?event1) (auto simp: CanonicalJSON_def marshalMap_def)
  have "checkEventContentHash X b =
      (if Sum256 X hashable \<noteq> declaredHash then Some InvalidContentHash else None)"
    using a h by (simp add: checkEventContentHash_def)
  with h show "\<exists>hashable. CanonicalJSON (marshalMap ?event1) = Inr hashable
        \<and> (checkEventContentHash X b = Some InvalidContentHash
              \<longleftrightarrow> Sum256 X hashable \<noteq> declaredHash)
        \<and> (checkEventContentHash X b = None \<longleftrightarrow> Sum256 X hashable = declaredHash)"
    by auto
next
  assume "lookupMap event ''signatures'' = None"
  then show "deleteMap ''signatures'' event = event"
    by (rule deleteMap_absent)
next
  assume "unmarshalMap b = Inl err"
  then show "checkEventContentHash X b = Some err"
    by (simp add: checkEventContentHash_def)
next
  assume "unmarshalMap b = Inr event \<and> unmarshalHashes X (lookupMap event ''hashes'') = Inl err"
  then show "checkEventContentHash X b = Some err"
    by (simp add: checkEventContentHash_def)
qed

text \<open>The claim as the specification has it does not hold. The signed message
  \<open>signedHashed\<close> declares the digest of its canonical form without \<open>signatures\<close>,
  \<open>unsigned\<close> and \<open>hashes\<close>, and passes the check. \<open>addContentHashesToEvent\<close> gives the same
  message the digest of its canonical form without exactly \<open>unsigned\<close> and \<open>hashes\<close>, in
  which the sample digest shows the key \<open>signatures\<close>, and the check fails on the result:
  the two do not hash the same input.\<close>

theorem content_hash_inputs_counterexample:
  "checkEventContentHash sample signedHashed = None
   \<and> addContentHashesToEvent sample signedHashed = Inr signedRehashed
   \<and> gjsonGetRaw sample signedRehashed ''hashes''
       = Some (JObj [(''sha256'', JStr ''contentsignaturestype'')])
   \<and> checkEventContentHash sample signedRehashed = Some InvalidContentHash"
proof -
  have 1: "checkEventContentHash sample signedHashed = None"
    by code_simp
  have 2: "addContentHashesToEvent sample signedHashed = Inr signedRehashed"
    by code_simp
  have 3: "gjsonGetRaw sample signedRehashed ''hashes''
       = Some (JObj [(''sha256'', JStr ''contentsignaturestype'')])"
    by (simp add: sample_def sampleGet_def signedRehashed_def)
  have 4: "checkEventContentHash sample signedRehashed = Some InvalidContentHash"
    by code_simp
  from 1 2 3 4 show ?thesis
    by simp
qed

theorem content_hash_inputs_witness:
  "addContentHashesToEvent sample plainMessage = Inr plainHashed
   \<and> (\<exists>event hashable withHashes. unmarshalMap plainMessage = Inr event
        \<and> CanonicalJSON (marshalMap (deleteMap ''hashes'' (deleteMap ''unsigned'' event)))
            = Inr hashable
        \<and> plainHashed = marshalMap withHashes
        \<and> lookupMap withHashes ''hashes''
            = Some (JObj [(''sha256'', marshalBase64 sample (Sum256 sample hashable))]))
   \<and> checkEventContentHash sample plainHashed = None
   \<and> checkEventContentHash sample signedHashed = None
   \<and> checkEventContentHash sample signedRehashed = Some InvalidContentHash
   \<and> deleteMap ''signatures'' (Some [(''type'', JStr ''m.room.message'')])
       = Some [(''type'', JStr ''m.room.message'')]
   \<and> checkEventContentHash sample NotJSON = Some SyntaxError
   \<and> checkEventContentHash sample plainMessage = Some SyntaxError"
proof -
  have a: "addContentHashesToEvent sample plainMessage = Inr plainHashed"
    by code_simp
  have 1: "\<exists>event hashable withHashes. unmarshalMap plainMessage = Inr event
        \<and> CanonicalJSON (marshalMap (deleteMap ''hashes'' (deleteMap ''unsigned'' event)))
            = Inr hashable
        \<and> plainHashed = marshalMap withHashes
        \<and> lookupMap withHashes ''hashes''
            = Some (JObj [(''sha256'', marshalBase64 sample (Sum256 sample hashable))])"
    using content_hash_inputs [where X = sample and b = plainMessage and out = plainHashed] a
    by blast
  have u: "unmarshalMap plainHashed = Inr (Some
       [(''content'', JObj []), (''hashes'', JObj [(''sha256'', JStr ''contenttype'')]),
        (''type'', JStr ''m.room.message''), (''unsigned'', JObj [(''age'', JNum ''1'')])])"
    by code_simp
  have d: "unmarshalHashes sample (lookupMap (Some
       [(''content'', JObj []), (''hashes'', JObj [(''sha256'', JStr ''contenttype'')]),
        (''type'', JStr ''m.room.message''), (''unsigned'', JObj [(''age'', JNum ''1'')])])
       ''hashes'') = Inr ''contenttype''"
    by code_simp
  have s: "Sum256 sample (Text (canonical (JObj
       [(''content'', JObj []), (''type'', JStr ''m.room.message'')]))) = ''contenttype''"
    by code_simp
  have 2: "checkEventContentHash sample plainHashed = None"
    using content_hash_inputs [where X = sample and b = plainHashed
        and declaredHash = "''contenttype''" and event = "Some
       [(''content'', JObj []), (''hashes'', JObj [(''sha256'', JStr ''contenttype'')]),
        (''type'', JStr ''m.room.message''), (''unsigned'', JObj [(''age'', JNum ''1'')])]",
        THEN conjunct2, THEN conjunct1] u d s
    by (auto simp: CanonicalJSON_def marshalMap_def deleteMap_def)
  have us: "unmarshalMap signedHashed = Inr (Some
       [(''content'', JObj []), (''hashes'', JObj [(''sha256'', JStr ''contenttype'')]),
        (''signatures'', JObj [(''example.org'', JObj [(''ed25519:1'', JStr ''secret'')])]),
        (''type'', JStr ''m.room.message''), (''unsigned'', JObj [(''age'', JNum ''1'')])])"
    by code_simp
  have ds: "unmarshalHashes sample (lookupMap (Some
       [(''content'', JObj []), (''hashes'', JObj [(''sha256'', JStr ''contenttype'')]),
        (''signatures'', JObj [(''example.org'', JObj [(''ed25519:1'', JStr ''secret'')])]),
        (''type'', JStr ''m.room.message''), (''unsigned'', JObj [(''age'', JNum ''1'')])])
       ''hashes'') = Inr ''contenttype''"
    by code_simp
  have 3: "checkEventContentHash sample signedHashed = None"
    using content_hash_inputs [where X = sample and b = signedHashed
        and declaredHash = "''contenttype''" and event = "Some
       [(''content'', JObj []), (''hashes'', JObj [(''sha256'', JStr ''contenttype'')]),
        (''signatures'', JObj [(''example.org'', JObj [(''ed25519:1'', JStr ''secret'')])]),
        (''type'', JStr ''m.room.message''), (''unsigned'', JObj [(''age'', JNum ''1'')])]",
        THEN conjunct2, THEN conjunct1] us ds s
    by (auto simp: CanonicalJSON_def marshalMap_def deleteMap_def)
  have ur: "unmarshalMap signedRehashed = Inr (Some
       [(''content'', JObj []), (''hashes'', JObj [(''sha256'', JStr ''contentsignaturestype'')]),
        (''signatures'', JObj [(''example.org'', JObj [(''ed25519:1'', JStr ''secret'')])]),
        (''type'', JStr ''m.room.message''), (''unsigned'', JObj [(''age'', JNum ''1'')])])"
    by code_simp
  have dr: "unmarshalHashes sample (lookupMap (Some
       [(''content'', JObj []), (''hashes'', JObj [(''sha256'', JStr ''contentsignaturestype'')]),
        (''signatures'', JObj [(''example.org'', JObj [(''ed25519:1'', JStr ''secret'')])]),
        (''type'', JStr ''m.room.message''), (''unsigned'', JObj [(''age'', JNum ''1'')])])
       ''hashes'') = Inr ''contentsignaturestype''"
    by code_simp
  have 4: "checkEventContentHash sample signedRehashed = Some InvalidContentHash"
    using content_hash_inputs [where X = sample and b = signedRehashed
        and declaredHash = "''contentsignaturestype''" and event = "Some
       [(''content'', JObj []), (''hashes'', JObj [(''sha256'', JStr ''contentsignaturestype'')]),
        (''signatures'', JObj [(''example.org'', JObj [(''ed25519:1'', JStr ''secret'')])]),
        (''type'', JStr ''m.room.message''), (''unsigned'', JObj [(''age'', JNum ''1'')])]",
        THEN conjunct2, THEN conjunct1] ur dr s
    by (auto simp: CanonicalJSON_def marshalMap_def deleteMap_def)
  have 5: "deleteMap ''signatures'' (Some [(''type'', JStr ''m.room.message'')])
       = Some [(''type'', JStr ''m.room.message'')]"
    using content_hash_inputs [where event = "Some [(''type'', JStr ''m.room.message'')]"]
    by (simp add: lookupMap_def)
  have n: "unmarshalMap NotJSON = Inl SyntaxError"
    by (simp add: unmarshalMap_def)
  have 6: "checkEventContentHash sample NotJSON = Some SyntaxError"
    using content_hash_inputs [where X = sample and b = NotJSON and err = SyntaxError] n
    by blast
  have up: "unmarshalMap plainMessage = Inr (Some
       [(''type'', JStr ''m.room.message''), (''content'', JObj []),
        (''unsigned'', JObj [(''age'', JNum ''1'')])])"
    by code_simp
  have dp: "unmarshalHashes sample (lookupMap (Some
       [(''type'', JStr ''m.room.message''), (''content'', JObj []),
        (''unsigned'', JObj [(''age'', JNum ''1'')])]) ''hashes'') = Inl SyntaxError"
    by code_simp
  have 7: "checkEventContentHash sample plainMessage = Some SyntaxError"
    using content_hash_inputs [where X = sample and b = plainMessage and err = SyntaxError] up dp
    by blast
  from a 1 2 3 4 5 6 7 show ?thesis
    by simp
qed

end
